theory Spec2Isabelle
  imports Complex_Main "HOL-Library.Word"
begin

unbundle bit_operations_syntax

section \<open>Data model of the payment gateway\<close>

text \<open>
  The gateway keeps all its data in PostgreSQL tables and hands work to three Bull
  queues. A table is modelled as the list of its rows in insertion order, a queue as
  the list of the jobs added to it. Identifiers and status columns are strings, as in
  the schema (\<^verbatim>\<open>VARCHAR\<close>, \<^verbatim>\<open>UUID\<close>); amounts are integers; instants are
  milliseconds since the epoch.
\<close>

datatype json =
    JNull
  | JBool bool
  | JNum int
  | JStr string
  | JDate int
  | JObj "(string \<times> json) list"

record merchant =
  m_id :: string
  webhook_url :: "string option"
  webhook_secret :: "string option"

record order =
  o_id :: string
  o_merchant_id :: string
  o_amount :: int
  o_currency :: string

record payment =
  p_id :: string
  p_order_id :: string
  p_merchant_id :: string
  p_amount :: int
  p_currency :: string
  p_method :: string
  p_card_number :: "string option"
  p_card_expiry :: "string option"
  p_card_cvv :: "string option"
  p_vpa :: "string option"
  p_status :: string
  p_error_code :: "string option"
  p_error_description :: "string option"
  p_captured :: bool
  p_created_at :: int
  p_updated_at :: int

record refund =
  r_id :: string
  r_payment_id :: string
  r_merchant_id :: string
  r_amount :: int
  r_reason :: "string option"
  r_status :: string
  r_created_at :: int
  r_processed_at :: "int option"

record webhook_log =
  wl_id :: string
  wl_merchant_id :: string
  wl_event :: string
  wl_payload :: json
  wl_status :: string
  wl_attempts :: nat
  wl_last_attempt_at :: "int option"
  wl_next_retry_at :: "int option"
  wl_response_code :: "nat option"
  wl_response_body :: "string option"

record idempotency_key =
  ik_key :: string
  ik_merchant_id :: string
  ik_response :: json
  ik_expires_at :: int

text \<open>The \<^verbatim>\<open>data\<close> of a job, one record per queue. A webhook job is kept in its queue
  together with the \<^verbatim>\<open>delay\<close> option (milliseconds) it was added with.\<close>

record payment_job =
  paymentId :: string

record refund_job =
  refundId :: string

record webhook_job =
  webhookLogId :: string
  merchantId :: string
  event :: string
  payload :: json

record state =
  merchants :: "merchant list"
  orders :: "order list"
  payments :: "payment list"
  refunds :: "refund list"
  webhook_logs :: "webhook_log list"
  idempotency_keys :: "idempotency_key list"
  paymentQueue :: "payment_job list"
  webhookQueue :: "(webhook_job \<times> nat) list"
  refundQueue :: "refund_job list"

subsection \<open>The outside world\<close>

text \<open>
  What a handler reads from outside the store is gathered in one record: the clocks
  (\<^verbatim>\<open>Date.now()\<close> and the database's \<^verbatim>\<open>CURRENT_TIMESTAMP\<close>), the
  environment variables, the random draws, the built-in \<^verbatim>\<open>JSON.stringify\<close>, Node's
  \<^verbatim>\<open>crypto.createHmac('sha256', key).update(msg).digest('hex')\<close>, and the answer of
  the merchant's endpoint to a request sent with \<^verbatim>\<open>axios.post\<close>.
\<close>

record http_request =
  req_url :: string
  req_body :: string
  req_signature :: string

text \<open>The merchant's endpoint answers a request with a status code and a body, or not
  at all (connection refused, timeout after 5 seconds, ...).\<close>

datatype http_reply =
    Reply nat json
  | NoReply string

text \<open>\<^verbatim>\<open>axios.post\<close> either resolves with a response, or rejects with an error that
  carries a response, or rejects with an error that carries only a message.\<close>

datatype axios_outcome =
    Resolved nat json
  | RejectedWithResponse nat json
  | RejectedNoResponse string

record env =
  date_now :: int
  current_timestamp :: int
  webhook_retry_intervals_test :: bool
  test_mode :: bool
  test_payment_success :: bool
  math_random :: rat
  random_string :: string
  gen_random_uuid :: string
  stringify :: "json \<Rightarrow> string"
  hmac_sha256_hex :: "string \<Rightarrow> string \<Rightarrow> string"
  endpoint :: "http_request \<Rightarrow> http_reply"

text \<open>
  The axios library is not code of the repository. The handler calls it without a
  \<^verbatim>\<open>validateStatus\<close> option, so the library's default applies: the promise resolves
  when the status is in \<open>[200, 300)\<close> and rejects with the response attached otherwise;
  without a response it rejects with the error's message.
\<close>

definition axios_post :: "env \<Rightarrow> http_request \<Rightarrow> axios_outcome" where
  "axios_post e rq =
     (case endpoint e rq of
        Reply status d \<Rightarrow>
          if 200 \<le> status \<and> status < 300 then Resolved status d
          else RejectedWithResponse status d
      | NoReply msg \<Rightarrow> RejectedNoResponse msg)"

datatype job_error =
    MerchantNotFound string
  | WebhookLogNotFound string
  | InvalidHmacKey
  | PaymentNotFound string
  | RefundNotFound string
  | PaymentNotRefundable string
  | RefundExceedsPayment
  | DbError
  | QueueError

text \<open>JavaScript's \<^verbatim>\<open>!s\<close> on a nullable string: true for \<^verbatim>\<open>null\<close>, \<^verbatim>\<open>undefined\<close>
  and the empty string.\<close>

definition falsy :: "string option \<Rightarrow> bool" where
  "falsy s = (case s of None \<Rightarrow> True | Some v \<Rightarrow> v = [])"

section \<open>Webhook delivery (DeliverWebhookJob)\<close>

text \<open>\<^verbatim>\<open>xs[i] || d\<close>: the entry at index \<open>i\<close>, or \<open>d\<close> when the index is out of range
  (\<^verbatim>\<open>undefined\<close>) or the entry is \<open>0\<close> (falsy).\<close>

definition index_or :: "nat list \<Rightarrow> nat \<Rightarrow> nat \<Rightarrow> nat" where
  "index_or xs i d = (if i < length xs \<and> xs ! i \<noteq> 0 then xs ! i else d)"

definition testIntervals :: "nat list" where
  "testIntervals = [0, 5000, 10000, 15000, 20000]"

definition prodIntervals :: "nat list" where
  "prodIntervals = [0, 60000, 300000, 1800000, 7200000]"

definition getRetryDelay :: "env \<Rightarrow> nat \<Rightarrow> nat" where
  "getRetryDelay e attemptNumber =
     (if webhook_retry_intervals_test e
      then index_or testIntervals attemptNumber 20000
      else index_or prodIntervals attemptNumber 7200000)"

definition calculateNextRetry :: "env \<Rightarrow> nat \<Rightarrow> int" where
  "calculateNextRetry e attemptNumber = date_now e + int (getRetryDelay e attemptNumber)"

text \<open>The three variables the \<^verbatim>\<open>try\<close>/\<^verbatim>\<open>catch\<close> around \<^verbatim>\<open>axios.post\<close> leaves behind:
  \<^verbatim>\<open>responseCode\<close>, \<^verbatim>\<open>responseBody\<close> and \<^verbatim>\<open>deliverySuccess\<close>.\<close>

fun responseCode :: "axios_outcome \<Rightarrow> nat" where
  "responseCode (Resolved status d) = status"
| "responseCode (RejectedWithResponse status d) = status"
| "responseCode (RejectedNoResponse msg) = 0"

fun responseBody :: "env \<Rightarrow> axios_outcome \<Rightarrow> string" where
  "responseBody e (Resolved status d) = take 1000 (stringify e d)"
| "responseBody e (RejectedWithResponse status d) = take 1000 (stringify e d)"
| "responseBody e (RejectedNoResponse msg) = msg"

fun deliverySuccess :: "axios_outcome \<Rightarrow> bool" where
  "deliverySuccess (Resolved status d) = (200 \<le> status \<and> status < 300)"
| "deliverySuccess (RejectedWithResponse status d) = False"
| "deliverySuccess (RejectedNoResponse msg) = False"

datatype delivery_result =
    Skipped
  | Delivered string bool nat

text \<open>The request \<^verbatim>\<open>deliverWebhook\<close> posts: the serialised payload as the body, its
  HMAC under the merchant's secret in the \<^verbatim>\<open>X-Webhook-Signature\<close> header.\<close>

definition webhook_request :: "env \<Rightarrow> string \<Rightarrow> string \<Rightarrow> json \<Rightarrow> http_request" where
  "webhook_request e url secret pl =
     (let payloadString = stringify e pl;
          signature = hmac_sha256_hex e secret payloadString
      in \<lparr>req_url = url, req_body = payloadString, req_signature = signature\<rparr>)"

definition log_success :: "env \<Rightarrow> nat \<Rightarrow> axios_outcome \<Rightarrow> webhook_log \<Rightarrow> webhook_log" where
  "log_success e currentAttempts out l =
     l\<lparr>wl_status := ''success'',
       wl_attempts := currentAttempts,
       wl_last_attempt_at := Some (current_timestamp e),
       wl_response_code := Some (responseCode out),
       wl_response_body := Some (responseBody e out)\<rparr>"

definition log_failure :: "env \<Rightarrow> nat \<Rightarrow> axios_outcome \<Rightarrow> webhook_log \<Rightarrow> webhook_log" where
  "log_failure e currentAttempts out l =
     l\<lparr>wl_status := (if currentAttempts \<ge> 5 then ''failed'' else ''pending''),
       wl_attempts := currentAttempts,
       wl_last_attempt_at := Some (current_timestamp e),
       wl_next_retry_at := Some (calculateNextRetry e currentAttempts),
       wl_response_code := Some (responseCode out),
       wl_response_body := Some (responseBody e out)\<rparr>"

text \<open>\<^verbatim>\<open>UPDATE webhook_logs SET ... WHERE id = $n\<close>.\<close>

definition update_log :: "string \<Rightarrow> (webhook_log \<Rightarrow> webhook_log) \<Rightarrow> state \<Rightarrow> state" where
  "update_log i f s =
     s\<lparr>webhook_logs := map (\<lambda>l. if wl_id l = i then f l else l) (webhook_logs s)\<rparr>"

definition deliverWebhook ::
  "env \<Rightarrow> webhook_job \<Rightarrow> state \<Rightarrow> (job_error + delivery_result) \<times> state" where
  "deliverWebhook e job s =
     (case find (\<lambda>m. m_id m = merchantId job) (merchants s) of
        None \<Rightarrow> (Inl (MerchantNotFound (merchantId job)), s)
      | Some merchant \<Rightarrow>
          (case webhook_url merchant of
             None \<Rightarrow> (Inr Skipped, s)
           | Some url \<Rightarrow>
               if url = [] then (Inr Skipped, s)
               else
                 (case find (\<lambda>l. wl_id l = webhookLogId job) (webhook_logs s) of
                    None \<Rightarrow> (Inl (WebhookLogNotFound (webhookLogId job)), s)
                  | Some lg \<Rightarrow>
                      (case webhook_secret merchant of
                         None \<Rightarrow> (Inl InvalidHmacKey, s)
                       | Some secret \<Rightarrow>
                           let currentAttempts = wl_attempts lg + 1;
                               out = axios_post e (webhook_request e url secret (payload job))
                           in
                             if deliverySuccess out then
                               (Inr (Delivered (webhookLogId job) True currentAttempts),
                                update_log (webhookLogId job)
                                  (log_success e currentAttempts out) s)
                             else
                               let s1 = update_log (webhookLogId job)
                                          (log_failure e currentAttempts out) s;
                                   s2 = (if currentAttempts < 5
                                         then s1\<lparr>webhookQueue := webhookQueue s1 @
                                                [(job, getRetryDelay e currentAttempts)]\<rparr>
                                         else s1)
                               in (Inr (Delivered (webhookLogId job) False currentAttempts),
                                   s2)))))"

text \<open>The receiver shipped with the repository (test-merchant/webhook-receiver.js)
  recomputes the HMAC of the raw body under its own secret and compares it with the
  header: \<open>401\<close> on a mismatch, \<open>200\<close> otherwise.\<close>

definition WEBHOOK_SECRET :: string where
  "WEBHOOK_SECRET = ''whsec_test_abc123''"


section \<open>Emitting a webhook event (WebhookService)\<close>

text \<open>
  \<^verbatim>\<open>createWebhookLog\<close> wraps its whole body in \<^verbatim>\<open>try\<close>/\<^verbatim>\<open>catch\<close>. To say what
  the \<^verbatim>\<open>catch\<close> does, the body is modelled with the failure of one of its three
  awaited calls injected: the merchant \<^verbatim>\<open>SELECT\<close>, the log \<^verbatim>\<open>INSERT\<close>, or
  \<^verbatim>\<open>webhookQueue.add\<close>. Besides an injected failure the \<^verbatim>\<open>INSERT\<close> fails when the
  generated id is already a primary key of the table.
\<close>

datatype fault = NoFault | MerchantLookupFails | LogInsertFails | EnqueueFails

definition event_payload :: "env \<Rightarrow> string \<Rightarrow> json \<Rightarrow> json" where
  "event_payload e ev d =
     JObj [(''event'', JStr ev), (''timestamp'', JNum (date_now e div 1000)), (''data'', d)]"

definition new_webhook_log :: "string \<Rightarrow> string \<Rightarrow> string \<Rightarrow> json \<Rightarrow> webhook_log" where
  "new_webhook_log i mid ev pl =
     \<lparr>wl_id = i, wl_merchant_id = mid, wl_event = ev, wl_payload = pl,
      wl_status = ''pending'', wl_attempts = 0, wl_last_attempt_at = None,
      wl_next_retry_at = None, wl_response_code = None, wl_response_body = None\<rparr>"

definition createWebhookLog_try ::
  "env \<Rightarrow> fault \<Rightarrow> string \<Rightarrow> string \<Rightarrow> json \<Rightarrow> state \<Rightarrow> (job_error + unit) \<times> state" where
  "createWebhookLog_try e f mid ev d s =
     (if f = MerchantLookupFails then (Inl DbError, s)
      else
        (case find (\<lambda>m. m_id m = mid) (merchants s) of
           None \<Rightarrow> (Inr (), s)
         | Some merchant \<Rightarrow>
             if falsy (webhook_url merchant) then (Inr (), s)
             else
               let pl = event_payload e ev d;
                   webhookLogId = gen_random_uuid e
               in
                 if f = LogInsertFails \<or> webhookLogId \<in> set (map wl_id (webhook_logs s))
                 then (Inl DbError, s)
                 else
                   let s1 = s\<lparr>webhook_logs := webhook_logs s @
                                 [new_webhook_log webhookLogId mid ev pl]\<rparr>
                   in
                     if f = EnqueueFails then (Inl QueueError, s1)
                     else
                       (Inr (),
                        s1\<lparr>webhookQueue := webhookQueue s1 @
                             [(\<lparr>webhookLogId = webhookLogId, merchantId = mid,
                                event = ev, payload = pl\<rparr>, 0)]\<rparr>)))"

text \<open>The \<^verbatim>\<open>catch\<close> logs the error and returns normally.\<close>

definition createWebhookLog ::
  "env \<Rightarrow> fault \<Rightarrow> string \<Rightarrow> string \<Rightarrow> json \<Rightarrow> state \<Rightarrow> (job_error + unit) \<times> state" where
  "createWebhookLog e f mid ev d s =
     (case createWebhookLog_try e f mid ev d s of
        (Inl err, s') \<Rightarrow> (Inr (), s')
      | (Inr u, s') \<Rightarrow> (Inr u, s'))"

section \<open>The payment worker (ProcessPaymentJob)\<close>

text \<open>\<^verbatim>\<open>key: v || undefined\<close> in an object literal: the key is left out of the
  serialised object when \<open>v\<close> is falsy.\<close>

definition opt_field :: "string \<Rightarrow> string option \<Rightarrow> (string \<times> json) list" where
  "opt_field k v = (case v of None \<Rightarrow> [] | Some x \<Rightarrow> if x = [] then [] else [(k, JStr x)])"

definition payment_snapshot :: "payment \<Rightarrow> string \<Rightarrow> (string \<times> json) list \<Rightarrow> json" where
  "payment_snapshot p st extra =
     JObj [(''payment'',
       JObj ([(''id'', JStr (p_id p)), (''order_id'', JStr (p_order_id p)),
              (''amount'', JNum (p_amount p)), (''currency'', JStr (p_currency p)),
              (''method'', JStr (p_method p))] @ opt_field ''vpa'' (p_vpa p) @
             [(''status'', JStr st)] @ extra @ [(''created_at'', JDate (p_created_at p))]))]"

definition update_payment :: "string \<Rightarrow> (payment \<Rightarrow> payment) \<Rightarrow> state \<Rightarrow> state" where
  "update_payment i f s =
     s\<lparr>payments := map (\<lambda>p. if p_id p = i then f p else p) (payments s)\<rparr>"

text \<open>The simulated outcome: fixed by \<^verbatim>\<open>TEST_PAYMENT_SUCCESS\<close> in test mode, otherwise
  a random draw against the success rate of the payment method.\<close>

definition isSuccess :: "env \<Rightarrow> payment \<Rightarrow> bool" where
  "isSuccess e p =
     (if test_mode e then test_payment_success e
      else math_random e < (if p_method p = ''upi'' then 9 / 10 else 95 / 100))"

datatype job_result = JobDone string string

definition processPayment ::
  "env \<Rightarrow> fault \<Rightarrow> payment_job \<Rightarrow> state \<Rightarrow> (job_error + job_result) \<times> state" where
  "processPayment e f job s =
     (case find (\<lambda>p. p_id p = paymentId job) (payments s) of
        None \<Rightarrow> (Inl (PaymentNotFound (paymentId job)), s)
      | Some p \<Rightarrow>
          if isSuccess e p then
            let s1 = update_payment (paymentId job)
                       (\<lambda>q. q\<lparr>p_status := ''success'', p_updated_at := current_timestamp e\<rparr>) s
            in (case createWebhookLog e f (p_merchant_id p) ''payment.success''
                       (payment_snapshot p ''success'' []) s1 of
                  (Inl err, s2) \<Rightarrow> (Inl err, s2)
                | (Inr u, s2) \<Rightarrow> (Inr (JobDone (paymentId job) ''success''), s2))
          else
            let s1 = update_payment (paymentId job)
                       (\<lambda>q. q\<lparr>p_status := ''failed'',
                               p_error_code := Some ''PAYMENT_FAILED'',
                               p_error_description := Some ''Payment processing failed'',
                               p_updated_at := current_timestamp e\<rparr>) s
            in (case createWebhookLog e f (p_merchant_id p) ''payment.failed''
                       (payment_snapshot p ''failed''
                          [(''error_code'', JStr ''PAYMENT_FAILED''),
                           (''error_description'', JStr ''Payment processing failed'')]) s1 of
                  (Inl err, s2) \<Rightarrow> (Inl err, s2)
                | (Inr u, s2) \<Rightarrow> (Inr (JobDone (paymentId job) ''failed''), s2)))"

section \<open>The idempotency cache (IdempotencyService)\<close>

definition ik_match :: "string \<Rightarrow> string \<Rightarrow> idempotency_key \<Rightarrow> bool" where
  "ik_match k mid r = (ik_key r = k \<and> ik_merchant_id r = mid)"

definition checkIdempotencyKey ::
  "env \<Rightarrow> string \<Rightarrow> string \<Rightarrow> state \<Rightarrow> json option \<times> state" where
  "checkIdempotencyKey e k mid s =
     (case find (ik_match k mid) (idempotency_keys s) of
        None \<Rightarrow> (None, s)
      | Some record \<Rightarrow>
          if date_now e \<ge> ik_expires_at record then
            (None, s\<lparr>idempotency_keys :=
                      filter (\<lambda>r. \<not> ik_match k mid r) (idempotency_keys s)\<rparr>)
          else (Some (ik_response record), s))"

text \<open>\<^verbatim>\<open>INSERT ... ON CONFLICT (key, merchant_id) DO UPDATE SET response, expires_at\<close>.\<close>

definition storeIdempotencyKey :: "env \<Rightarrow> string \<Rightarrow> string \<Rightarrow> json \<Rightarrow> state \<Rightarrow> state" where
  "storeIdempotencyKey e k mid response s =
     (let expiresAt = date_now e + 24 * 60 * 60 * 1000
      in if list_ex (ik_match k mid) (idempotency_keys s) then
           s\<lparr>idempotency_keys :=
               map (\<lambda>r. if ik_match k mid r
                         then r\<lparr>ik_response := response, ik_expires_at := expiresAt\<rparr>
                         else r) (idempotency_keys s)\<rparr>
         else
           s\<lparr>idempotency_keys := idempotency_keys s @
               [\<lparr>ik_key = k, ik_merchant_id = mid, ik_response = response,
                 ik_expires_at = expiresAt\<rparr>]\<rparr>)"

section \<open>The payments routes\<close>

text \<open>A route answers with a status code and a JSON body.\<close>

datatype api_response = ApiResponse nat json

definition error_body :: "string \<Rightarrow> string \<Rightarrow> json" where
  "error_body c d = JObj [(''error'', JObj [(''code'', JStr c), (''description'', JStr d)])]"

text \<open>JavaScript's truthiness of a parsed JSON value.\<close>

fun truthy :: "json \<Rightarrow> bool" where
  "truthy JNull = False"
| "truthy (JBool b) = b"
| "truthy (JNum n) = (n \<noteq> 0)"
| "truthy (JStr x) = (x \<noteq> [])"
| "truthy (JDate t) = True"
| "truthy (JObj fs) = True"

text \<open>\<^verbatim>\<open>v || null\<close> on a nullable string.\<close>

definition or_null :: "string option \<Rightarrow> string option" where
  "or_null v = (if falsy v then None else v)"

record payment_request =
  pr_merchant :: string
  pr_idempotency_key :: "string option"
  pr_order_id :: string
  pr_method :: string
  pr_card_number :: "string option"
  pr_card_expiry :: "string option"
  pr_card_cvv :: "string option"
  pr_vpa :: "string option"

definition new_payment :: "env \<Rightarrow> string \<Rightarrow> payment_request \<Rightarrow> order \<Rightarrow> payment" where
  "new_payment e i rq ord =
     \<lparr>p_id = i, p_order_id = pr_order_id rq, p_merchant_id = pr_merchant rq,
      p_amount = o_amount ord, p_currency = o_currency ord, p_method = pr_method rq,
      p_card_number = or_null (pr_card_number rq),
      p_card_expiry = or_null (pr_card_expiry rq),
      p_card_cvv = or_null (pr_card_cvv rq),
      p_vpa = or_null (pr_vpa rq),
      p_status = ''pending'', p_error_code = None, p_error_description = None,
      p_captured = False, p_created_at = current_timestamp e,
      p_updated_at = current_timestamp e\<rparr>"

definition payment_response :: "payment \<Rightarrow> json" where
  "payment_response p =
     JObj ([(''id'', JStr (p_id p)), (''order_id'', JStr (p_order_id p)),
            (''amount'', JNum (p_amount p)), (''currency'', JStr (p_currency p)),
            (''method'', JStr (p_method p))] @ opt_field ''vpa'' (p_vpa p) @
           opt_field ''card_number'' (p_card_number p) @
           [(''status'', JStr (p_status p)), (''created_at'', JDate (p_created_at p))])"

text \<open>The part of \<^verbatim>\<open>POST /api/v1/payments\<close> after the idempotency check.\<close>

definition create_payment :: "env \<Rightarrow> payment_request \<Rightarrow> state \<Rightarrow> api_response \<times> state" where
  "create_payment e rq s =
     (case find (\<lambda>ord. o_id ord = pr_order_id rq \<and> o_merchant_id ord = pr_merchant rq)
             (orders s) of
        None \<Rightarrow> (ApiResponse 404 (error_body ''NOT_FOUND_ERROR'' ''Order not found''), s)
      | Some ord \<Rightarrow>
          if pr_method rq \<notin> set [''card'', ''upi''] then
            (ApiResponse 400 (error_body ''BAD_REQUEST_ERROR'' ''Invalid payment method''), s)
          else if pr_method rq = ''card'' \<and>
                  (falsy (pr_card_number rq) \<or> falsy (pr_card_expiry rq) \<or>
                   falsy (pr_card_cvv rq)) then
            (ApiResponse 400 (error_body ''BAD_REQUEST_ERROR''
               ''Card details are required for card payments''), s)
          else if pr_method rq = ''upi'' \<and> falsy (pr_vpa rq) then
            (ApiResponse 400 (error_body ''BAD_REQUEST_ERROR''
               ''VPA is required for UPI payments''), s)
          else
            let paymentId = ''pay_'' @ random_string e
            in
              if paymentId \<in> set (map p_id (payments s)) then
                (ApiResponse 500 (error_body ''SERVER_ERROR'' ''Internal server error''), s)
              else
                let p = new_payment e paymentId rq ord;
                    s1 = s\<lparr>payments := payments s @ [p]\<rparr>;
                    s2 = s1\<lparr>paymentQueue := paymentQueue s1 @ [\<lparr>paymentId = p_id p\<rparr>]\<rparr>;
                    response = payment_response p;
                    s3 = (case pr_idempotency_key rq of
                            None \<Rightarrow> s2
                          | Some k \<Rightarrow>
                              if k = [] then s2
                              else storeIdempotencyKey e k (pr_merchant rq) response s2)
                in (ApiResponse 201 response, s3))"

definition post_payments :: "env \<Rightarrow> payment_request \<Rightarrow> state \<Rightarrow> api_response \<times> state" where
  "post_payments e rq s =
     (case pr_idempotency_key rq of
        None \<Rightarrow> create_payment e rq s
      | Some k \<Rightarrow>
          if k = [] then create_payment e rq s
          else
            (case checkIdempotencyKey e k (pr_merchant rq) s of
               (None, s1) \<Rightarrow> create_payment e rq s1
             | (Some cachedResponse, s1) \<Rightarrow>
                 if truthy cachedResponse then (ApiResponse 201 cachedResponse, s1)
                 else create_payment e rq s1))"

text \<open>\<^verbatim>\<open>SELECT COALESCE(SUM(amount), 0) FROM refunds WHERE payment_id = $1 AND status IN
  ('pending', 'processed')\<close>, used by the refund route and by the refund worker.\<close>

definition counted :: "string \<Rightarrow> refund \<Rightarrow> bool" where
  "counted pid r = (r_payment_id r = pid \<and> r_status r \<in> set [''pending'', ''processed''])"

definition total_refunded :: "string \<Rightarrow> state \<Rightarrow> int" where
  "total_refunded pid s = sum_list (map r_amount (filter (counted pid) (refunds s)))"

record refund_request =
  rr_merchant :: string
  rr_payment_id :: string
  rr_amount :: int
  rr_reason :: "string option"

definition new_refund :: "env \<Rightarrow> string \<Rightarrow> refund_request \<Rightarrow> refund" where
  "new_refund e i rq =
     \<lparr>r_id = i, r_payment_id = rr_payment_id rq, r_merchant_id = rr_merchant rq,
      r_amount = rr_amount rq, r_reason = rr_reason rq, r_status = ''pending'',
      r_created_at = current_timestamp e, r_processed_at = None\<rparr>"

definition refund_response :: "refund \<Rightarrow> json" where
  "refund_response r =
     JObj [(''id'', JStr (r_id r)), (''payment_id'', JStr (r_payment_id r)),
           (''amount'', JNum (r_amount r)),
           (''reason'', (case r_reason r of None \<Rightarrow> JNull | Some x \<Rightarrow> JStr x)),
           (''status'', JStr (r_status r)), (''created_at'', JDate (r_created_at r))]"

text \<open>\<^verbatim>\<open>POST /api/v1/payments/:payment_id/refunds\<close>. The amount of the request is an
  integer, so \<^verbatim>\<open>!amount\<close> is \<open>amount = 0\<close>.\<close>

definition post_refunds :: "env \<Rightarrow> refund_request \<Rightarrow> state \<Rightarrow> api_response \<times> state" where
  "post_refunds e rq s =
     (case find (\<lambda>p. p_id p = rr_payment_id rq \<and> p_merchant_id p = rr_merchant rq)
             (payments s) of
        None \<Rightarrow> (ApiResponse 404 (error_body ''NOT_FOUND_ERROR'' ''Payment not found''), s)
      | Some p \<Rightarrow>
          if p_status p \<noteq> ''success'' then
            (ApiResponse 400 (error_body ''BAD_REQUEST_ERROR''
               ''Payment not in refundable state''), s)
          else
            let totalRefunded = total_refunded (rr_payment_id rq) s;
                availableAmount = p_amount p - totalRefunded
            in
              if rr_amount rq = 0 \<or> rr_amount rq \<le> 0 then
                (ApiResponse 400 (error_body ''BAD_REQUEST_ERROR''
                   ''Refund amount must be a positive integer''), s)
              else if rr_amount rq > availableAmount then
                (ApiResponse 400 (error_body ''BAD_REQUEST_ERROR''
                   ''Refund amount exceeds available amount''), s)
              else
                let refundId = ''rfnd_'' @ random_string e
                in
                  if refundId \<in> set (map r_id (refunds s)) then
                    (ApiResponse 500 (error_body ''SERVER_ERROR'' ''Internal server error''), s)
                  else
                    let r = new_refund e refundId rq;
                        s1 = s\<lparr>refunds := refunds s @ [r]\<rparr>;
                        s2 = s1\<lparr>refundQueue := refundQueue s1 @ [\<lparr>refundId = r_id r\<rparr>]\<rparr>
                    in (ApiResponse 201 (refund_response r), s2))"

section \<open>The refund worker (ProcessRefundJob)\<close>

definition update_refund :: "string \<Rightarrow> (refund \<Rightarrow> refund) \<Rightarrow> state \<Rightarrow> state" where
  "update_refund i f s =
     s\<lparr>refunds := map (\<lambda>r. if r_id r = i then f r else r) (refunds s)\<rparr>"

definition refund_snapshot :: "env \<Rightarrow> refund \<Rightarrow> json" where
  "refund_snapshot e r =
     JObj [(''refund'',
       JObj [(''id'', JStr (r_id r)), (''payment_id'', JStr (r_payment_id r)),
             (''amount'', JNum (r_amount r)),
             (''reason'', (case r_reason r of None \<Rightarrow> JNull | Some x \<Rightarrow> JStr x)),
             (''status'', JStr ''processed''), (''created_at'', JDate (r_created_at r)),
             (''processed_at'', JDate (date_now e))])]"

definition processRefund ::
  "env \<Rightarrow> fault \<Rightarrow> refund_job \<Rightarrow> state \<Rightarrow> (job_error + job_result) \<times> state" where
  "processRefund e f job s =
     (case find (\<lambda>r. r_id r = refundId job) (refunds s) of
        None \<Rightarrow> (Inl (RefundNotFound (refundId job)), s)
      | Some r \<Rightarrow>
          (case find (\<lambda>p. p_id p = r_payment_id r) (payments s) of
             None \<Rightarrow> (Inl (PaymentNotFound (r_payment_id r)), s)
           | Some p \<Rightarrow>
               if p_status p \<noteq> ''success'' then (Inl (PaymentNotRefundable (p_status p)), s)
               else
                 let totalRefunded = total_refunded (r_payment_id r) s
                 in
                   if totalRefunded > p_amount p then (Inl RefundExceedsPayment, s)
                   else
                     let s1 = update_refund (refundId job)
                                (\<lambda>q. q\<lparr>r_status := ''processed'',
                                        r_processed_at := Some (current_timestamp e)\<rparr>) s
                     in (case createWebhookLog e f (r_merchant_id r) ''refund.processed''
                                (refund_snapshot e r) s1 of
                           (Inl err, s2) \<Rightarrow> (Inl err, s2)
                         | (Inr u, s2) \<Rightarrow> (Inr (JobDone (refundId job) ''processed''), s2))))"

section \<open>Manual retry of a webhook (webhooks route)\<close>

definition post_webhook_retry :: "string \<Rightarrow> string \<Rightarrow> state \<Rightarrow> api_response \<times> state" where
  "post_webhook_retry mid webhook_id s =
     (case find (\<lambda>l. wl_id l = webhook_id \<and> wl_merchant_id l = mid) (webhook_logs s) of
        None \<Rightarrow> (ApiResponse 404 (error_body ''NOT_FOUND'' ''Webhook log not found''), s)
      | Some lg \<Rightarrow>
          let s1 = update_log webhook_id
                     (\<lambda>l. l\<lparr>wl_attempts := 0, wl_status := ''pending'',
                             wl_next_retry_at := None\<rparr>) s;
              s2 = s1\<lparr>webhookQueue := webhookQueue s1 @
                     [(\<lparr>webhookLogId = webhook_id, merchantId = mid, event = wl_event lg,
                        payload = wl_payload lg\<rparr>, 0)]\<rparr>
          in (ApiResponse 200
                (JObj [(''id'', JStr webhook_id), (''status'', JStr ''pending''),
                       (''message'', JStr ''Webhook retry scheduled'')]), s2))"

section \<open>Node's crypto: HMAC-SHA256\<close>
























section \<open>Runs of the gateway\<close>











text \<open>A request that passes the validation of the payments route.\<close>

definition valid_method :: "payment_request \<Rightarrow> bool" where
  "valid_method rq =
     (pr_method rq = ''card'' \<and> \<not> falsy (pr_card_number rq) \<and> \<not> falsy (pr_card_expiry rq) \<and>
        \<not> falsy (pr_card_cvv rq) \<or>
      pr_method rq = ''upi'' \<and> \<not> falsy (pr_vpa rq))"

text \<open>The last step of the payments route: the response is cached under the request's
  key, when it has one.\<close>

definition store_key :: "env \<Rightarrow> payment_request \<Rightarrow> json \<Rightarrow> state \<Rightarrow> state" where
  "store_key e rq response s =
     (case pr_idempotency_key rq of
        None \<Rightarrow> s
      | Some k \<Rightarrow> if k = [] then s else storeIdempotencyKey e k (pr_merchant rq) response s)"

section \<open>Example data\<close>

text \<open>A small store and environment on which the handlers are run below: one merchant
  with a configured endpoint, one pending webhook log and its delivery job.\<close>

definition demo_stringify :: "json \<Rightarrow> string" where
  "demo_stringify j = (case j of JStr x \<Rightarrow> x | JObj fs \<Rightarrow> ''{}'' | _ \<Rightarrow> ''null'')"

definition demo_env :: "(http_request \<Rightarrow> http_reply) \<Rightarrow> env" where
  "demo_env ep =
     \<lparr>date_now = 1000000, current_timestamp = 1000005,
      webhook_retry_intervals_test = False, test_mode = True, test_payment_success = True,
      math_random = 1 / 2, random_string = ''AAAAAAAAAAAAAAAA'', gen_random_uuid = ''uuid-2'',
      stringify = demo_stringify, hmac_sha256_hex = (\<lambda>k m. k @ '':'' @ m),
      endpoint = ep\<rparr>"

definition demo_merchant :: merchant where
  "demo_merchant = \<lparr>m_id = ''m1'', webhook_url = Some ''http://localhost:4000/webhook'',
     webhook_secret = Some WEBHOOK_SECRET\<rparr>"

definition demo_job :: webhook_job where
  "demo_job = \<lparr>webhookLogId = ''uuid-1'', merchantId = ''m1'', event = ''payment.success'',
     payload = JObj []\<rparr>"

definition demo_state :: state where
  "demo_state =
     \<lparr>merchants = [demo_merchant], orders = [], payments = [], refunds = [],
      webhook_logs = [new_webhook_log ''uuid-1'' ''m1'' ''payment.success'' (JObj [])],
      idempotency_keys = [], paymentQueue = [], webhookQueue = [(demo_job, 0)],
      refundQueue = []\<rparr>"

text \<open>An endpoint that cannot be reached, and one that answers \<open>200\<close>.\<close>

definition unreachable :: "http_request \<Rightarrow> http_reply" where
  "unreachable rq = NoReply ''connect ECONNREFUSED''"

definition answers_ok :: "http_request \<Rightarrow> http_reply" where
  "answers_ok rq = Reply 200 (JStr ''OK'')"

text \<open>An endpoint that answers \<open>204\<close> with a body of 1500 characters.\<close>

definition answers_long :: "http_request \<Rightarrow> http_reply" where
  "answers_long rq = Reply 204 (JStr (replicate 1500 (CHR ''x'')))"

text \<open>A store with an order, a settled and a pending payment, and a pending refund of
  the settled payment, with their jobs.\<close>

definition demo_order :: order where
  "demo_order = \<lparr>o_id = ''order_1'', o_merchant_id = ''m1'', o_amount = 50000,
     o_currency = ''INR''\<rparr>"

definition demo_payment :: "string \<Rightarrow> string \<Rightarrow> payment" where
  "demo_payment i st =
     \<lparr>p_id = i, p_order_id = ''order_1'', p_merchant_id = ''m1'', p_amount = 50000,
      p_currency = ''INR'', p_method = ''upi'', p_card_number = None, p_card_expiry = None,
      p_card_cvv = None, p_vpa = Some ''user@paytm'', p_status = st, p_error_code = None,
      p_error_description = None, p_captured = False, p_created_at = 900000,
      p_updated_at = 900000\<rparr>"

definition demo_refund :: refund where
  "demo_refund = \<lparr>r_id = ''rfnd_1'', r_payment_id = ''pay_1'', r_merchant_id = ''m1'',
     r_amount = 20000, r_reason = Some ''damaged'', r_status = ''pending'',
     r_created_at = 950000, r_processed_at = None\<rparr>"

definition demo_shop :: state where
  "demo_shop =
     \<lparr>merchants = [demo_merchant], orders = [demo_order],
      payments = [demo_payment ''pay_1'' ''success'', demo_payment ''pay_2'' ''pending''],
      refunds = [demo_refund],
      webhook_logs = [new_webhook_log ''uuid-1'' ''m1'' ''payment.success'' (JObj [])],
      idempotency_keys = [], paymentQueue = [\<lparr>paymentId = ''pay_2''\<rparr>],
      webhookQueue = [(demo_job, 0)], refundQueue = [\<lparr>refundId = ''rfnd_1''\<rparr>]\<rparr>"

text \<open>The example store after five failed deliveries: the log is failed, no job is left.\<close>

definition demo_exhausted :: state where
  "demo_exhausted =
     demo_state\<lparr>webhook_logs :=
        [(new_webhook_log ''uuid-1'' ''m1'' ''payment.success'' (JObj []))
           \<lparr>wl_status := ''failed'', wl_attempts := 5, wl_last_attempt_at := Some 900000,
            wl_next_retry_at := Some 8100000, wl_response_code := Some 500\<rparr>],
        webhookQueue := []\<rparr>"

definition demo_initial :: state where
  "demo_initial =
     \<lparr>merchants = [demo_merchant], orders = [demo_order], payments = [], refunds = [],
      webhook_logs = [], idempotency_keys = [], paymentQueue = [], webhookQueue = [],
      refundQueue = []\<rparr>"

definition demo_payment_request :: payment_request where
  "demo_payment_request =
     \<lparr>pr_merchant = ''m1'', pr_idempotency_key = Some ''key-1'', pr_order_id = ''order_1'',
      pr_method = ''upi'', pr_card_number = None, pr_card_expiry = None, pr_card_cvv = None,
      pr_vpa = Some ''user@paytm''\<rparr>"

definition demo_refund_request :: "int \<Rightarrow> refund_request" where
  "demo_refund_request a =
     \<lparr>rr_merchant = ''m1'', rr_payment_id = ''pay_AAAAAAAAAAAAAAAA'', rr_amount = a,
      rr_reason = Some ''damaged''\<rparr>"

text \<open>The store after a payment was created and settled and 20000 of it were refunded.\<close>

definition demo_refunded :: state where
  "demo_refunded =
     snd (post_refunds (demo_env unreachable) (demo_refund_request 20000)
       (snd (processPayment (demo_env unreachable) NoFault
              \<lparr>paymentId = ''pay_AAAAAAAAAAAAAAAA''\<rparr>
          (snd (post_payments (demo_env unreachable) demo_payment_request demo_initial)))))"


text \<open>The store after the first payment request, and its response.\<close>

definition demo_created :: state where
  "demo_created = snd (post_payments (demo_env unreachable) demo_payment_request demo_initial)"

text \<open>The environment an hour later, and a day and an hour later, with another random draw.\<close>

definition demo_later :: "int \<Rightarrow> env" where
  "demo_later ms =
     (demo_env unreachable)\<lparr>date_now := 1000000 + ms, random_string := ''BBBBBBBBBBBBBBBB''\<rparr>"

definition demo_response :: json where
  "demo_response =
     JObj [(''id'', JStr ''pay_AAAAAAAAAAAAAAAA''), (''order_id'', JStr ''order_1''),
           (''amount'', JNum 50000), (''currency'', JStr ''INR''), (''method'', JStr ''upi''),
           (''vpa'', JStr ''user@paytm''), (''status'', JStr ''pending''),
           (''created_at'', JDate 1000005)]"




section \<open>Properties of webhook delivery\<close>

lemmas demo_defs = demo_env_def demo_job_def demo_state_def demo_merchant_def
  unreachable_def answers_ok_def new_webhook_log_def demo_stringify_def WEBHOOK_SECRET_def

lemmas deliver_defs = deliverWebhook_def Let_def update_log_def log_failure_def
  log_success_def calculateNextRetry_def getRetryDelay_def index_or_def prodIntervals_def
  webhook_request_def axios_post_def

lemma funpow5: "(f ^^ 5) x = f (f (f (f (f x))))"
  by (simp add: numeral_eq_Suc)

text \<open>An \<^verbatim>\<open>UPDATE ... WHERE id = i\<close> that leaves the key column alone changes what a
  later \<^verbatim>\<open>SELECT ... WHERE id = i\<close> returns by exactly the update.\<close>

lemma find_map_update:
  assumes "\<And>x. key (f x) = key x"
  shows "find (\<lambda>x. key x = i) (map (\<lambda>x. if key x = i then f x else x) xs) =
         map_option f (find (\<lambda>x. key x = i) xs)"
  using assms by (induction xs) auto

text \<open>From attempt 1 on, \<^verbatim>\<open>getRetryDelay\<close> in production mode is the table entry at
  the attempt number, and the last entry beyond index 4.\<close>

lemma prod_delay_clamped:
  assumes t: "\<not> webhook_retry_intervals_test e" and p: "0 < n"
  shows "getRetryDelay e n = [0, 60000, 300000, 1800000, 7200000] ! min n 4"
proof -
  consider "n = 1" | "n = 2" | "n = 3" | "n = 4" | "5 \<le> n" using p by linarith
  then show ?thesis
  proof cases
    case 5
    then have "min n 4 = 4" by simp
    with 5 t show ?thesis
      by (simp add: getRetryDelay_def index_or_def prodIntervals_def)
  qed (use t in \<open>simp_all add: getRetryDelay_def index_or_def prodIntervals_def\<close>)
qed

text \<open>Index 0 of the table is never used as a delay: \<open>0\<close> is falsy, so the fallback
  applies. No delivery asks for it, since the attempt number is at least 1.\<close>

lemma getRetryDelay_zero: "\<not> webhook_retry_intervals_test e \<Longrightarrow> getRetryDelay e 0 = 7200000"
  by (simp add: getRetryDelay_def index_or_def prodIntervals_def)

text \<open>The whole effect of a delivery that fails.\<close>

lemma deliverWebhook_failed_attempt:
  assumes m: "find (\<lambda>m. m_id m = merchantId job) (merchants s) = Some merchant"
    and u: "webhook_url merchant = Some url" "url \<noteq> []"
    and k: "webhook_secret merchant = Some secret"
    and l: "find (\<lambda>l. wl_id l = webhookLogId job) (webhook_logs s) = Some lg"
    and fail: "\<not> deliverySuccess (axios_post e (webhook_request e url secret (payload job)))"
  shows "deliverWebhook e job s =
           (Inr (Delivered (webhookLogId job) False (wl_attempts lg + 1)),
            (update_log (webhookLogId job)
               (log_failure e (wl_attempts lg + 1)
                  (axios_post e (webhook_request e url secret (payload job)))) s)
            \<lparr>webhookQueue :=
                (if wl_attempts lg + 1 < 5
                 then webhookQueue s @ [(job, getRetryDelay e (wl_attempts lg + 1))]
                 else webhookQueue s)\<rparr>)"
  using assms by (simp add: deliverWebhook_def Let_def update_log_def)

text \<open>
  Claim C1. A delivery attempt that fails (the merchant has an endpoint and a secret, the
  log exists, and the request does not end in a 2xx response) raises the log's attempts
  counter by exactly one; sets the status to pending when the new count is below 5 and to
  failed otherwise; sets \<^verbatim>\<open>next_retry_at\<close> to now plus the production table
  \<open>[0, 60000, 300000, 1800000, 7200000]\<close> at the new count, clamped to the last entry
  beyond index 4; and adds a job for the same log with that delay to the queue exactly
  when the new count is below 5. From the fifth failed attempt on the queue is left as it
  was.
\<close>

theorem deliverWebhook_failure_schedule:
  assumes m: "find (\<lambda>m. m_id m = merchantId job) (merchants s) = Some merchant"
    and u: "webhook_url merchant = Some url" "url \<noteq> []"
    and k: "webhook_secret merchant = Some secret"
    and l: "find (\<lambda>l. wl_id l = webhookLogId job) (webhook_logs s) = Some lg"
    and fail: "\<not> deliverySuccess (axios_post e (webhook_request e url secret (payload job)))"
    and prod: "\<not> webhook_retry_intervals_test e"
    and run: "deliverWebhook e job s = (res, s')"
  shows "\<exists>lg'. find (\<lambda>l. wl_id l = webhookLogId job) (webhook_logs s') = Some lg' \<and>
           wl_attempts lg' = wl_attempts lg + 1 \<and>
           wl_status lg' = (if wl_attempts lg' < 5 then ''pending'' else ''failed'') \<and>
           wl_next_retry_at lg' =
             Some (date_now e +
                   int ([0, 60000, 300000, 1800000, 7200000] ! min (wl_attempts lg') 4)) \<and>
           webhookQueue s' =
             (if wl_attempts lg' < 5
              then webhookQueue s @
                   [(job, [0, 60000, 300000, 1800000, 7200000] ! min (wl_attempts lg') 4)]
              else webhookQueue s)"
proof -
  let ?n = "wl_attempts lg + 1"
  let ?out = "axios_post e (webhook_request e url secret (payload job))"
  have d: "getRetryDelay e ?n = [0, 60000, 300000, 1800000, 7200000] ! min ?n 4"
    using prod by (rule prod_delay_clamped) simp
  have s': "s' = (update_log (webhookLogId job) (log_failure e ?n ?out) s)
                 \<lparr>webhookQueue :=
                    (if ?n < 5 then webhookQueue s @ [(job, getRetryDelay e ?n)]
                     else webhookQueue s)\<rparr>"
    using deliverWebhook_failed_attempt [OF m u k l fail] run by simp
  have f: "find (\<lambda>l. wl_id l = webhookLogId job) (webhook_logs s') =
           Some (log_failure e ?n ?out lg)"
    unfolding s' update_log_def
    using find_map_update [of wl_id "log_failure e ?n ?out" "webhookLogId job" "webhook_logs s"] l
    by (simp add: log_failure_def)
  have q: "webhookQueue s' =
             (if ?n < 5 then webhookQueue s @ [(job, getRetryDelay e ?n)] else webhookQueue s)"
    unfolding s' by simp
  show ?thesis
    unfolding f using q d
    by (simp add: log_failure_def calculateNextRetry_def)
qed

text \<open>On the example: the first failure leaves the log pending with one attempt and a
  retry in 60 seconds; five failures in a row leave it failed with five attempts, the
  retries having been scheduled after 1 minute, 5 minutes, 30 minutes and 2 hours, and
  none after the fifth.\<close>

theorem deliverWebhook_failure_schedule_witness:
  "(\<exists>lg'. find (\<lambda>l. wl_id l = ''uuid-1'')
            (webhook_logs (snd (deliverWebhook (demo_env unreachable) demo_job demo_state))) =
          Some lg' \<and>
          wl_attempts lg' = 1 \<and> wl_status lg' = ''pending'' \<and>
          wl_next_retry_at lg' = Some 1060000 \<and>
          webhookQueue (snd (deliverWebhook (demo_env unreachable) demo_job demo_state)) =
            [(demo_job, 0), (demo_job, 60000)]) \<and>
   map wl_status (webhook_logs
      (((\<lambda>s. snd (deliverWebhook (demo_env unreachable) demo_job s)) ^^ 5) demo_state)) =
     [''failed''] \<and>
   map wl_attempts (webhook_logs
      (((\<lambda>s. snd (deliverWebhook (demo_env unreachable) demo_job s)) ^^ 5) demo_state)) =
     [5] \<and>
   map snd (webhookQueue
      (((\<lambda>s. snd (deliverWebhook (demo_env unreachable) demo_job s)) ^^ 5) demo_state)) =
     [0, 60000, 300000, 1800000, 7200000]"
proof -
  have m: "find (\<lambda>m. m_id m = merchantId demo_job) (merchants demo_state) = Some demo_merchant"
    by (simp add: demo_defs)
  have u: "webhook_url demo_merchant = Some ''http://localhost:4000/webhook''"
    and u': "''http://localhost:4000/webhook'' \<noteq> []"
    and k: "webhook_secret demo_merchant = Some WEBHOOK_SECRET"
    by (simp_all add: demo_defs)
  have l: "find (\<lambda>l. wl_id l = webhookLogId demo_job) (webhook_logs demo_state) =
             Some (new_webhook_log ''uuid-1'' ''m1'' ''payment.success'' (JObj []))"
    by (simp add: demo_defs)
  have fail: "\<not> deliverySuccess (axios_post (demo_env unreachable)
       (webhook_request (demo_env unreachable) ''http://localhost:4000/webhook'' WEBHOOK_SECRET
          (payload demo_job)))"
    by (simp add: demo_defs axios_post_def)
  have prod: "\<not> webhook_retry_intervals_test (demo_env unreachable)"
    by (simp add: demo_defs)
  have run: "deliverWebhook (demo_env unreachable) demo_job demo_state =
     (fst (deliverWebhook (demo_env unreachable) demo_job demo_state),
      snd (deliverWebhook (demo_env unreachable) demo_job demo_state))"
    by simp
  have five: "map wl_status (webhook_logs
      (((\<lambda>s. snd (deliverWebhook (demo_env unreachable) demo_job s)) ^^ 5) demo_state)) =
     [''failed''] \<and>
   map wl_attempts (webhook_logs
      (((\<lambda>s. snd (deliverWebhook (demo_env unreachable) demo_job s)) ^^ 5) demo_state)) =
     [5] \<and>
   map snd (webhookQueue
      (((\<lambda>s. snd (deliverWebhook (demo_env unreachable) demo_job s)) ^^ 5) demo_state)) =
     [0, 60000, 300000, 1800000, 7200000]"
    unfolding funpow5 by (simp add: deliver_defs demo_defs)
  show ?thesis
    using deliverWebhook_failure_schedule [OF m u u' k l fail prod run] five
    by (simp add: demo_defs deliver_defs)
qed

text \<open>With axios's default, a delivery counts as successful exactly when the endpoint
  answers with a status in \<open>[200, 300)\<close>.\<close>

lemma deliverySuccess_axios:
  "deliverySuccess (axios_post e rq) \<longleftrightarrow>
     (\<exists>st d. endpoint e rq = Reply st d \<and> 200 \<le> st \<and> st < 300)"
  by (cases "endpoint e rq") (auto simp: axios_post_def)

lemma deliverWebhook_successful_attempt:
  assumes m: "find (\<lambda>m. m_id m = merchantId job) (merchants s) = Some merchant"
    and u: "webhook_url merchant = Some url" "url \<noteq> []"
    and k: "webhook_secret merchant = Some secret"
    and l: "find (\<lambda>l. wl_id l = webhookLogId job) (webhook_logs s) = Some lg"
    and ok: "deliverySuccess (axios_post e (webhook_request e url secret (payload job)))"
  shows "deliverWebhook e job s =
           (Inr (Delivered (webhookLogId job) True (wl_attempts lg + 1)),
            update_log (webhookLogId job)
               (log_success e (wl_attempts lg + 1)
                  (axios_post e (webhook_request e url secret (payload job)))) s)"
  using assms by (simp add: deliverWebhook_def Let_def)

text \<open>
  Claim C6. For every delivery attempt (the merchant has an endpoint and a secret, and the
  log exists): the outcome is a success if and only if the endpoint answers with a status
  in \<open>[200, 300)\<close>; every other outcome is a failure, and a network failure is recorded
  with response code 0; on success the log is stored with status success, the attempts
  count raised by one, \<^verbatim>\<open>last_attempt_at\<close> set to the current timestamp, the response
  code, and the serialised response body cut to its first 1000 characters.
\<close>

theorem deliverWebhook_outcome:
  assumes m: "find (\<lambda>m. m_id m = merchantId job) (merchants s) = Some merchant"
    and u: "webhook_url merchant = Some url" "url \<noteq> []"
    and k: "webhook_secret merchant = Some secret"
    and l: "find (\<lambda>l. wl_id l = webhookLogId job) (webhook_logs s) = Some lg"
    and run: "deliverWebhook e job s = (res, s')"
    and rp: "reply = endpoint e (webhook_request e url secret (payload job))"
  shows "\<exists>ok lg'.
           res = Inr (Delivered (webhookLogId job) ok (wl_attempts lg + 1)) \<and>
           find (\<lambda>l. wl_id l = webhookLogId job) (webhook_logs s') = Some lg' \<and>
           (ok \<longleftrightarrow> (\<exists>st d. reply = Reply st d \<and> 200 \<le> st \<and> st < 300)) \<and>
           (\<forall>msg. reply = NoReply msg \<longrightarrow> \<not> ok \<and> wl_response_code lg' = Some 0) \<and>
           (\<not> ok \<longrightarrow> wl_status lg' \<noteq> ''success'') \<and>
           (ok \<longrightarrow>
              wl_status lg' = ''success'' \<and>
              wl_attempts lg' = wl_attempts lg + 1 \<and>
              wl_last_attempt_at lg' = Some (current_timestamp e) \<and>
              (\<exists>st d body. reply = Reply st d \<and> wl_response_code lg' = Some st \<and>
                 wl_response_body lg' = Some body \<and> body = take 1000 (stringify e d) \<and>
                 length body \<le> 1000))"
proof -
  let ?rq = "webhook_request e url secret (payload job)"
  let ?out = "axios_post e ?rq"
  let ?n = "wl_attempts lg + 1"
  show ?thesis
  proof (cases "deliverySuccess ?out")
    case True
    then obtain st d where r: "endpoint e ?rq = Reply st d" and st: "200 \<le> st" "st < 300"
      using deliverySuccess_axios by blast
    have out: "?out = Resolved st d" using r st by (simp add: axios_post_def)
    have eq: "res = Inr (Delivered (webhookLogId job) True ?n)"
      "s' = update_log (webhookLogId job) (log_success e ?n ?out) s"
      using deliverWebhook_successful_attempt [OF m u k l True] run by simp_all
    have f: "find (\<lambda>l. wl_id l = webhookLogId job) (webhook_logs s') =
             Some (log_success e ?n ?out lg)"
      unfolding eq update_log_def
      using find_map_update [of wl_id "log_success e ?n ?out" "webhookLogId job" "webhook_logs s"] l
      by (simp add: log_success_def)
    show ?thesis
      using eq(1) f r st rp out
      by (intro exI [of _ True]) (simp add: log_success_def)
  next
    case False
    then have no: "\<not> (\<exists>st d. reply = Reply st d \<and> 200 \<le> st \<and> st < 300)"
      using deliverySuccess_axios rp by simp
    have eq: "res = Inr (Delivered (webhookLogId job) False ?n)"
      "s' = (update_log (webhookLogId job) (log_failure e ?n ?out) s)
                 \<lparr>webhookQueue :=
                    (if ?n < 5 then webhookQueue s @ [(job, getRetryDelay e ?n)]
                     else webhookQueue s)\<rparr>"
      using deliverWebhook_failed_attempt [OF m u k l False] run by simp_all
    have f: "find (\<lambda>l. wl_id l = webhookLogId job) (webhook_logs s') =
             Some (log_failure e ?n ?out lg)"
      unfolding eq update_log_def
      using find_map_update [of wl_id "log_failure e ?n ?out" "webhookLogId job" "webhook_logs s"] l
      by (simp add: log_failure_def)
    have c: "\<forall>msg. reply = NoReply msg \<longrightarrow> responseCode ?out = 0"
      using rp by (auto simp: axios_post_def)
    show ?thesis
      using eq(1) f no c
      by (intro exI [of _ False]) (simp add: log_failure_def)
  qed
qed

text \<open>On the example: an answer \<open>204\<close> with a body of 1500 characters is a success and
  1000 characters of the body are stored; an unreachable endpoint is a failure with
  response code 0.\<close>

theorem deliverWebhook_outcome_witness:
  "fst (deliverWebhook (demo_env answers_long) demo_job demo_state) =
     Inr (Delivered ''uuid-1'' True 1) \<and>
   map wl_status (webhook_logs (snd (deliverWebhook (demo_env answers_long) demo_job demo_state))) =
     [''success''] \<and>
   map wl_attempts (webhook_logs (snd (deliverWebhook (demo_env answers_long) demo_job demo_state))) =
     [1] \<and>
   map wl_last_attempt_at
     (webhook_logs (snd (deliverWebhook (demo_env answers_long) demo_job demo_state))) =
     [Some 1000005] \<and>
   map wl_response_code
     (webhook_logs (snd (deliverWebhook (demo_env answers_long) demo_job demo_state))) =
     [Some 204] \<and>
   map wl_response_body
     (webhook_logs (snd (deliverWebhook (demo_env answers_long) demo_job demo_state))) =
     [Some (replicate 1000 (CHR ''x''))] \<and>
   fst (deliverWebhook (demo_env unreachable) demo_job demo_state) =
     Inr (Delivered ''uuid-1'' False 1) \<and>
   map wl_response_code
     (webhook_logs (snd (deliverWebhook (demo_env unreachable) demo_job demo_state))) =
     [Some 0]"
proof -
  let ?e = "demo_env answers_long"
  have m: "find (\<lambda>m. m_id m = merchantId demo_job) (merchants demo_state) = Some demo_merchant"
    by (simp add: demo_defs)
  have u: "webhook_url demo_merchant = Some ''http://localhost:4000/webhook''"
    and u': "''http://localhost:4000/webhook'' \<noteq> []"
    and k: "webhook_secret demo_merchant = Some WEBHOOK_SECRET"
    by (simp_all add: demo_defs)
  have l: "find (\<lambda>l. wl_id l = webhookLogId demo_job) (webhook_logs demo_state) =
             Some (new_webhook_log ''uuid-1'' ''m1'' ''payment.success'' (JObj []))"
    by (simp add: demo_defs)
  have run: "deliverWebhook ?e demo_job demo_state =
     (fst (deliverWebhook ?e demo_job demo_state), snd (deliverWebhook ?e demo_job demo_state))"
    by simp
  have rp: "Reply 204 (JStr (replicate 1500 (CHR ''x''))) =
      endpoint ?e (webhook_request ?e ''http://localhost:4000/webhook'' WEBHOOK_SECRET
        (payload demo_job))"
    by (simp add: demo_defs answers_long_def)
  show ?thesis
    using deliverWebhook_outcome [OF m u u' k l run rp]
    by (simp add: demo_defs deliver_defs answers_long_def)
qed

section \<open>Properties of the webhook service and the workers\<close>

lemmas shop_defs = demo_order_def demo_payment_def demo_refund_def demo_shop_def

lemmas service_defs = createWebhookLog_def createWebhookLog_try_def event_payload_def falsy_def
  processPayment_def processRefund_def update_payment_def update_refund_def isSuccess_def
  total_refunded_def counted_def payment_snapshot_def refund_snapshot_def opt_field_def


text \<open>\<^verbatim>\<open>createWebhookLog\<close> always returns normally, and what it leaves behind depends
  only on the merchant row, the injected failure and the freshness of the generated id.\<close>

lemma createWebhookLog_returns: "fst (createWebhookLog e f mid ev d s) = Inr ()"
  by (simp add: createWebhookLog_def split: prod.splits sum.splits)

lemma createWebhookLog_cases:
  "createWebhookLog e f mid ev d s =
     (Inr (),
      (case find (\<lambda>m. m_id m = mid) (merchants s) of
         None \<Rightarrow> s
       | Some merchant \<Rightarrow>
           if f = MerchantLookupFails \<or> falsy (webhook_url merchant) \<or> f = LogInsertFails \<or>
              gen_random_uuid e \<in> set (map wl_id (webhook_logs s))
           then s
           else if f = EnqueueFails
           then s\<lparr>webhook_logs := webhook_logs s @
                   [new_webhook_log (gen_random_uuid e) mid ev (event_payload e ev d)]\<rparr>
           else s\<lparr>webhook_logs := webhook_logs s @
                   [new_webhook_log (gen_random_uuid e) mid ev (event_payload e ev d)],
                 webhookQueue := webhookQueue s @
                   [(\<lparr>webhookLogId = gen_random_uuid e, merchantId = mid, event = ev,
                      payload = event_payload e ev d\<rparr>, 0)]\<rparr>))"
  by (simp add: createWebhookLog_def createWebhookLog_try_def Let_def split: option.splits)

lemma createWebhookLog_other_tables:
  "payments (snd (createWebhookLog e f mid ev d s)) = payments s \<and>
   refunds (snd (createWebhookLog e f mid ev d s)) = refunds s \<and>
   merchants (snd (createWebhookLog e f mid ev d s)) = merchants s \<and>
   orders (snd (createWebhookLog e f mid ev d s)) = orders s \<and>
   idempotency_keys (snd (createWebhookLog e f mid ev d s)) = idempotency_keys s \<and>
   paymentQueue (snd (createWebhookLog e f mid ev d s)) = paymentQueue s \<and>
   refundQueue (snd (createWebhookLog e f mid ev d s)) = refundQueue s"
  by (simp add: createWebhookLog_cases split: option.splits)

lemma processPayment_found:
  assumes "find (\<lambda>p. p_id p = paymentId job) (payments s) = Some p"
  shows "processPayment e f job s =
    (Inr (JobDone (paymentId job) (if isSuccess e p then ''success'' else ''failed'')),
     (if isSuccess e p
      then snd (createWebhookLog e f (p_merchant_id p) ''payment.success''
             (payment_snapshot p ''success'' [])
             (update_payment (paymentId job)
                (\<lambda>q. q\<lparr>p_status := ''success'', p_updated_at := current_timestamp e\<rparr>) s))
      else snd (createWebhookLog e f (p_merchant_id p) ''payment.failed''
             (payment_snapshot p ''failed''
                [(''error_code'', JStr ''PAYMENT_FAILED''),
                 (''error_description'', JStr ''Payment processing failed'')])
             (update_payment (paymentId job)
                (\<lambda>q. q\<lparr>p_status := ''failed'',
                        p_error_code := Some ''PAYMENT_FAILED'',
                        p_error_description := Some ''Payment processing failed'',
                        p_updated_at := current_timestamp e\<rparr>) s))))"
  using assms
  by (simp add: processPayment_def Let_def createWebhookLog_cases split: option.splits)

lemma processPayment_status:
  assumes "find (\<lambda>p. p_id p = paymentId job) (payments s) = Some p"
  shows "payments (snd (processPayment e f job s)) =
           map (\<lambda>q. if p_id q = paymentId job
                     then (if isSuccess e p
                           then q\<lparr>p_status := ''success'', p_updated_at := current_timestamp e\<rparr>
                           else q\<lparr>p_status := ''failed'',
                                  p_error_code := Some ''PAYMENT_FAILED'',
                                  p_error_description := Some ''Payment processing failed'',
                                  p_updated_at := current_timestamp e\<rparr>)
                     else q) (payments s)"
  using assms
  by (simp add: processPayment_found createWebhookLog_other_tables update_payment_def)

lemma processRefund_found:
  assumes r: "find (\<lambda>r. r_id r = refundId job) (refunds s) = Some r"
    and p: "find (\<lambda>p. p_id p = r_payment_id r) (payments s) = Some p"
    and st: "p_status p = ''success''"
    and le: "total_refunded (r_payment_id r) s \<le> p_amount p"
  shows "processRefund e f job s =
    (Inr (JobDone (refundId job) ''processed''),
     snd (createWebhookLog e f (r_merchant_id r) ''refund.processed'' (refund_snapshot e r)
            (update_refund (refundId job)
               (\<lambda>q. q\<lparr>r_status := ''processed'',
                       r_processed_at := Some (current_timestamp e)\<rparr>) s)))"
  using assms
  by (simp add: processRefund_def Let_def createWebhookLog_cases split: option.splits)

lemma processRefund_refunds:
  assumes r: "find (\<lambda>r. r_id r = refundId job) (refunds s) = Some r"
    and p: "find (\<lambda>p. p_id p = r_payment_id r) (payments s) = Some p"
    and st: "p_status p = ''success''"
    and le: "total_refunded (r_payment_id r) s \<le> p_amount p"
  shows "refunds (snd (processRefund e f job s)) =
           map (\<lambda>q. if r_id q = refundId job
                     then q\<lparr>r_status := ''processed'',
                            r_processed_at := Some (current_timestamp e)\<rparr>
                     else q) (refunds s)"
  by (simp add: processRefund_found [OF assms] createWebhookLog_other_tables update_refund_def)


text \<open>
  Claim C10, as the code has it. Emitting a webhook event never fails the caller: every
  error of the merchant lookup, the log insert or the enqueue is caught, so
  \<^verbatim>\<open>createWebhookLog\<close> returns normally and the payment worker and the refund worker
  complete with their status write in place. No delivery job is created when an error
  occurs, when the merchant is missing or when it has no \<^verbatim>\<open>webhook_url\<close>. No log
  row is created when the lookup or the insert fails, when the merchant is missing or when
  it has no \<^verbatim>\<open>webhook_url\<close>. When only the enqueue fails, the pending log row that
  was inserted before stays in the table, with no job for it.
\<close>

theorem createWebhookLog_best_effort:
  assumes run: "createWebhookLog e f mid ev d s = (res, s')"
  shows "res = Inr () \<and>
    (f \<noteq> NoFault \<or> find (\<lambda>m. m_id m = mid) (merchants s) = None \<or>
       (\<exists>m. find (\<lambda>m. m_id m = mid) (merchants s) = Some m \<and> falsy (webhook_url m))
     \<longrightarrow> webhookQueue s' = webhookQueue s) \<and>
    (f = MerchantLookupFails \<or> f = LogInsertFails \<or>
       find (\<lambda>m. m_id m = mid) (merchants s) = None \<or>
       (\<exists>m. find (\<lambda>m. m_id m = mid) (merchants s) = Some m \<and> falsy (webhook_url m))
     \<longrightarrow> webhook_logs s' = webhook_logs s) \<and>
    (f = EnqueueFails \<and>
       (\<exists>m. find (\<lambda>m. m_id m = mid) (merchants s) = Some m \<and> \<not> falsy (webhook_url m)) \<and>
       gen_random_uuid e \<notin> set (map wl_id (webhook_logs s))
     \<longrightarrow> webhook_logs s' = webhook_logs s @
            [new_webhook_log (gen_random_uuid e) mid ev (event_payload e ev d)] \<and>
          webhookQueue s' = webhookQueue s) \<and>
    (\<forall>job p. find (\<lambda>p. p_id p = paymentId job) (payments s) = Some p \<longrightarrow>
       (\<exists>st. fst (processPayment e f job s) = Inr (JobDone (paymentId job) st) \<and>
             st \<in> {''success'', ''failed''} \<and>
             (\<forall>q \<in> set (payments (snd (processPayment e f job s))).
                 p_id q = paymentId job \<longrightarrow> p_status q = st))) \<and>
    (\<forall>job r p. find (\<lambda>r. r_id r = refundId job) (refunds s) = Some r \<and>
       find (\<lambda>p. p_id p = r_payment_id r) (payments s) = Some p \<and>
       p_status p = ''success'' \<and> total_refunded (r_payment_id r) s \<le> p_amount p \<longrightarrow>
       fst (processRefund e f job s) = Inr (JobDone (refundId job) ''processed'') \<and>
       (\<forall>q \<in> set (refunds (snd (processRefund e f job s))).
           r_id q = refundId job \<longrightarrow> r_status q = ''processed''))"
proof -
  have s': "s' = snd (createWebhookLog e f mid ev d s)" and res: "res = Inr ()"
    using run createWebhookLog_returns [of e f mid ev d s] by simp_all
  have a: "f \<noteq> NoFault \<or> find (\<lambda>m. m_id m = mid) (merchants s) = None \<or>
       (\<exists>m. find (\<lambda>m. m_id m = mid) (merchants s) = Some m \<and> falsy (webhook_url m))
     \<longrightarrow> webhookQueue s' = webhookQueue s"
    unfolding s' by (cases f) (auto simp: createWebhookLog_cases split: option.splits)
  have b: "f = MerchantLookupFails \<or> f = LogInsertFails \<or>
       find (\<lambda>m. m_id m = mid) (merchants s) = None \<or>
       (\<exists>m. find (\<lambda>m. m_id m = mid) (merchants s) = Some m \<and> falsy (webhook_url m))
     \<longrightarrow> webhook_logs s' = webhook_logs s"
    unfolding s' by (auto simp: createWebhookLog_cases split: option.splits)
  have c: "f = EnqueueFails \<and>
       (\<exists>m. find (\<lambda>m. m_id m = mid) (merchants s) = Some m \<and> \<not> falsy (webhook_url m)) \<and>
       gen_random_uuid e \<notin> set (map wl_id (webhook_logs s))
     \<longrightarrow> webhook_logs s' = webhook_logs s @
            [new_webhook_log (gen_random_uuid e) mid ev (event_payload e ev d)] \<and>
          webhookQueue s' = webhookQueue s"
    unfolding s' by (auto simp: createWebhookLog_cases split: option.splits)
  have p: "\<forall>job p. find (\<lambda>p. p_id p = paymentId job) (payments s) = Some p \<longrightarrow>
       (\<exists>st. fst (processPayment e f job s) = Inr (JobDone (paymentId job) st) \<and>
             st \<in> {''success'', ''failed''} \<and>
             (\<forall>q \<in> set (payments (snd (processPayment e f job s))).
                 p_id q = paymentId job \<longrightarrow> p_status q = st))"
  proof (intro allI impI)
    fix job :: payment_job and p
    assume h: "find (\<lambda>p. p_id p = paymentId job) (payments s) = Some p"
    show "\<exists>st. fst (processPayment e f job s) = Inr (JobDone (paymentId job) st) \<and>
             st \<in> {''success'', ''failed''} \<and>
             (\<forall>q \<in> set (payments (snd (processPayment e f job s))).
                 p_id q = paymentId job \<longrightarrow> p_status q = st)"
    proof (rule exI [of _ "if isSuccess e p then ''success'' else ''failed''"], intro conjI)
      show "fst (processPayment e f job s) =
              Inr (JobDone (paymentId job) (if isSuccess e p then ''success'' else ''failed''))"
        by (simp add: processPayment_found [OF h])
      show "(if isSuccess e p then ''success'' else ''failed'') \<in> {''success'', ''failed''}"
        by simp
      show "\<forall>q \<in> set (payments (snd (processPayment e f job s))).
              p_id q = paymentId job \<longrightarrow>
              p_status q = (if isSuccess e p then ''success'' else ''failed'')"
        unfolding processPayment_status [OF h] by auto
    qed
  qed
  have r: "\<forall>job r p. find (\<lambda>r. r_id r = refundId job) (refunds s) = Some r \<and>
       find (\<lambda>p. p_id p = r_payment_id r) (payments s) = Some p \<and>
       p_status p = ''success'' \<and> total_refunded (r_payment_id r) s \<le> p_amount p \<longrightarrow>
       fst (processRefund e f job s) = Inr (JobDone (refundId job) ''processed'') \<and>
       (\<forall>q \<in> set (refunds (snd (processRefund e f job s))).
           r_id q = refundId job \<longrightarrow> r_status q = ''processed'')"
  proof (intro allI impI, elim conjE)
    fix job :: refund_job and r p
    assume h: "find (\<lambda>r. r_id r = refundId job) (refunds s) = Some r"
      "find (\<lambda>p. p_id p = r_payment_id r) (payments s) = Some p"
      "p_status p = ''success''" "total_refunded (r_payment_id r) s \<le> p_amount p"
    show "fst (processRefund e f job s) = Inr (JobDone (refundId job) ''processed'') \<and>
       (\<forall>q \<in> set (refunds (snd (processRefund e f job s))).
           r_id q = refundId job \<longrightarrow> r_status q = ''processed'')"
    proof
      show "fst (processRefund e f job s) = Inr (JobDone (refundId job) ''processed'')"
        by (simp add: processRefund_found [OF h])
      show "\<forall>q \<in> set (refunds (snd (processRefund e f job s))).
              r_id q = refundId job \<longrightarrow> r_status q = ''processed''"
        unfolding processRefund_refunds [OF h] by auto
    qed
  qed
  from res a b c p r show ?thesis by blast
qed

text \<open>On the example store: a failing insert or lookup and an unknown merchant leave the
  store as it was; a failing enqueue leaves the new log row \<open>uuid-2\<close> and no new job; the
  payment worker and the refund worker complete under these failures.\<close>

theorem createWebhookLog_best_effort_witness:
  "createWebhookLog (demo_env unreachable) LogInsertFails ''m1'' ''payment.success''
          (JObj []) demo_shop = (Inr (), demo_shop) \<and>
   createWebhookLog (demo_env unreachable) MerchantLookupFails ''m1'' ''payment.success''
          (JObj []) demo_shop = (Inr (), demo_shop) \<and>
   createWebhookLog (demo_env unreachable) NoFault ''nobody'' ''payment.success''
          (JObj []) demo_shop = (Inr (), demo_shop) \<and>
   map wl_id (webhook_logs (snd (createWebhookLog (demo_env unreachable) EnqueueFails ''m1''
          ''payment.success'' (JObj []) demo_shop))) = [''uuid-1'', ''uuid-2''] \<and>
   webhookQueue (snd (createWebhookLog (demo_env unreachable) EnqueueFails ''m1''
          ''payment.success'' (JObj []) demo_shop)) = [(demo_job, 0)] \<and>
   fst (processPayment (demo_env unreachable) EnqueueFails \<lparr>paymentId = ''pay_2''\<rparr> demo_shop) =
     Inr (JobDone ''pay_2'' ''success'') \<and>
   map p_status (payments (snd (processPayment (demo_env unreachable) EnqueueFails
          \<lparr>paymentId = ''pay_2''\<rparr> demo_shop))) = [''success'', ''success''] \<and>
   fst (processRefund (demo_env unreachable) LogInsertFails \<lparr>refundId = ''rfnd_1''\<rparr> demo_shop) =
     Inr (JobDone ''rfnd_1'' ''processed'') \<and>
   map r_status (refunds (snd (processRefund (demo_env unreachable) LogInsertFails
          \<lparr>refundId = ''rfnd_1''\<rparr> demo_shop))) = [''processed'']"
proof -
  let ?e = "demo_env unreachable"
  have run: "createWebhookLog ?e f ''m1'' ''payment.success'' (JObj []) demo_shop =
      (fst (createWebhookLog ?e f ''m1'' ''payment.success'' (JObj []) demo_shop),
       snd (createWebhookLog ?e f ''m1'' ''payment.success'' (JObj []) demo_shop))" for f
    by simp
  show ?thesis
    using createWebhookLog_best_effort [OF run [of LogInsertFails]]
      createWebhookLog_best_effort [OF run [of EnqueueFails]]
    by (simp add: service_defs demo_defs shop_defs Let_def)
qed

text \<open>The claim C10 as stated says that no webhook log row is created in the error case.
  When \<^verbatim>\<open>webhookQueue.add\<close> fails the row has already been inserted: the call returns
  normally, the table has one more row, and the queue is unchanged.\<close>

theorem createWebhookLog_enqueue_failure_keeps_log:
  "fst (createWebhookLog (demo_env unreachable) EnqueueFails ''m1'' ''payment.success''
          (JObj []) demo_shop) = Inr () \<and>
   webhook_logs (snd (createWebhookLog (demo_env unreachable) EnqueueFails ''m1''
          ''payment.success'' (JObj []) demo_shop)) =
     webhook_logs demo_shop @
       [new_webhook_log ''uuid-2'' ''m1'' ''payment.success''
          (event_payload (demo_env unreachable) ''payment.success'' (JObj []))] \<and>
   webhook_logs (snd (createWebhookLog (demo_env unreachable) EnqueueFails ''m1''
          ''payment.success'' (JObj []) demo_shop)) \<noteq> webhook_logs demo_shop \<and>
   webhookQueue (snd (createWebhookLog (demo_env unreachable) EnqueueFails ''m1''
          ''payment.success'' (JObj []) demo_shop)) = webhookQueue demo_shop"
  by (simp add: service_defs demo_defs shop_defs Let_def)

section \<open>Properties of the manual retry\<close>

lemma find_weaken:
  "find (\<lambda>x. P x \<and> Q x) xs = Some y \<Longrightarrow> \<exists>z. find P xs = Some z"
  by (induction xs) (auto split: if_splits)

lemma set_map_update:
  assumes "y \<in> set (map (\<lambda>x. if key x = i then f x else x) xs)" and "key y = i"
    and "\<And>x. key (f x) = key x"
  shows "\<exists>x \<in> set xs. y = f x"
  using assms(1,2)
proof (induction xs)
  case Nil
  then show ?case by simp
next
  case (Cons a xs)
  show ?case
  proof (cases "y = (if key a = i then f a else a)")
    case True
    with Cons.prems(2) assms(3) [of a] have "key a = i" by (simp split: if_splits)
    with True show ?thesis by simp
  next
    case False
    with Cons show ?thesis by simp
  qed
qed

lemma post_webhook_retry_found:
  assumes "find (\<lambda>l. wl_id l = wid \<and> wl_merchant_id l = mid) (webhook_logs s) = Some lg"
  shows "post_webhook_retry mid wid s =
    (ApiResponse 200 (JObj [(''id'', JStr wid), (''status'', JStr ''pending''),
                            (''message'', JStr ''Webhook retry scheduled'')]),
     s\<lparr>webhook_logs :=
         map (\<lambda>l. if wl_id l = wid
                   then l\<lparr>wl_attempts := 0, wl_status := ''pending'', wl_next_retry_at := None\<rparr>
                   else l) (webhook_logs s),
       webhookQueue := webhookQueue s @
         [(\<lparr>webhookLogId = wid, merchantId = mid, event = wl_event lg,
            payload = wl_payload lg\<rparr>, 0)]\<rparr>)"
  using assms by (simp add: post_webhook_retry_def Let_def update_log_def)


text \<open>
  Claim C8. For every webhook log of the merchant, a manual retry sets attempts to 0, the
  status to pending and \<^verbatim>\<open>next_retry_at\<close> to \<^verbatim>\<open>NULL\<close> on the log, whatever they were
  before, and adds a delivery job for the log with delay 0 to the queue. The schedule
  restarts: the next delivery of that job is attempt number 1.
\<close>

theorem manual_retry_restarts_schedule:
  assumes l: "find (\<lambda>l. wl_id l = wid \<and> wl_merchant_id l = mid) (webhook_logs s) = Some lg"
    and run: "post_webhook_retry mid wid s = (resp, s')"
    and job: "job = \<lparr>webhookLogId = wid, merchantId = mid, event = wl_event lg,
                     payload = wl_payload lg\<rparr>"
  shows "(\<exists>lg'. find (\<lambda>l. wl_id l = wid) (webhook_logs s') = Some lg' \<and>
            wl_attempts lg' = 0 \<and> wl_status lg' = ''pending'' \<and> wl_next_retry_at lg' = None) \<and>
         (\<forall>l' \<in> set (webhook_logs s'). wl_id l' = wid \<longrightarrow>
            wl_attempts l' = 0 \<and> wl_status l' = ''pending'' \<and> wl_next_retry_at l' = None) \<and>
         webhookQueue s' = webhookQueue s @ [(job, 0)] \<and>
         (\<forall>e merchant url secret.
            find (\<lambda>m. m_id m = mid) (merchants s) = Some merchant \<and>
            webhook_url merchant = Some url \<and> url \<noteq> [] \<and>
            webhook_secret merchant = Some secret \<longrightarrow>
            (\<exists>ok. fst (deliverWebhook e job s') = Inr (Delivered wid ok 1)))"
proof -
  let ?f = "\<lambda>l. l\<lparr>wl_attempts := 0, wl_status := ''pending'', wl_next_retry_at := None\<rparr>"
  have s': "s' = s\<lparr>webhook_logs := map (\<lambda>l. if wl_id l = wid then ?f l else l) (webhook_logs s),
                   webhookQueue := webhookQueue s @ [(job, 0)]\<rparr>"
    using post_webhook_retry_found [OF l] run job by simp
  have logs: "webhook_logs s' = map (\<lambda>l. if wl_id l = wid then ?f l else l) (webhook_logs s)"
    unfolding s' by simp
  obtain z where z: "find (\<lambda>l. wl_id l = wid) (webhook_logs s) = Some z"
    using find_weaken [OF l] by blast
  have f: "find (\<lambda>l. wl_id l = wid) (webhook_logs s') = Some (?f z)"
    unfolding logs using find_map_update [of wl_id ?f wid "webhook_logs s"] z by simp
  have a: "\<exists>lg'. find (\<lambda>l. wl_id l = wid) (webhook_logs s') = Some lg' \<and>
            wl_attempts lg' = 0 \<and> wl_status lg' = ''pending'' \<and> wl_next_retry_at lg' = None"
    unfolding f by simp
  have b: "\<forall>l' \<in> set (webhook_logs s'). wl_id l' = wid \<longrightarrow>
            wl_attempts l' = 0 \<and> wl_status l' = ''pending'' \<and> wl_next_retry_at l' = None"
  proof (intro ballI impI)
    fix l' assume in': "l' \<in> set (webhook_logs s')" and id': "wl_id l' = wid"
    obtain x where "l' = ?f x"
      using set_map_update [of l' wl_id wid ?f "webhook_logs s"] in' id'
      unfolding logs by auto
    then show "wl_attempts l' = 0 \<and> wl_status l' = ''pending'' \<and> wl_next_retry_at l' = None"
      by simp
  qed
  have c: "webhookQueue s' = webhookQueue s @ [(job, 0)]"
    unfolding s' by simp
  have d: "\<forall>e merchant url secret.
            find (\<lambda>m. m_id m = mid) (merchants s) = Some merchant \<and>
            webhook_url merchant = Some url \<and> url \<noteq> [] \<and>
            webhook_secret merchant = Some secret \<longrightarrow>
            (\<exists>ok. fst (deliverWebhook e job s') = Inr (Delivered wid ok 1))"
  proof (intro allI impI, elim conjE)
    fix e merchant url secret
    assume m: "find (\<lambda>m. m_id m = mid) (merchants s) = Some merchant"
      and u: "webhook_url merchant = Some url" "url \<noteq> []"
      and k: "webhook_secret merchant = Some secret"
    have jid: "merchantId job = mid" "webhookLogId job = wid"
      unfolding job by simp_all
    have m': "find (\<lambda>m. m_id m = merchantId job) (merchants s') = Some merchant"
      using m unfolding s' jid by simp
    have l': "find (\<lambda>l. wl_id l = webhookLogId job) (webhook_logs s') = Some (?f z)"
      using f unfolding jid by simp
    show "\<exists>ok. fst (deliverWebhook e job s') = Inr (Delivered wid ok 1)"
    proof (cases "deliverySuccess (axios_post e (webhook_request e url secret (payload job)))")
      case True
      from deliverWebhook_successful_attempt [OF m' u k l' True]
      show ?thesis by (intro exI [of _ True]) (simp add: jid)
    next
      case False
      from deliverWebhook_failed_attempt [OF m' u k l' False]
      show ?thesis by (intro exI [of _ False]) (simp add: jid)
    qed
  qed
  from a b c d show ?thesis by blast
qed

text \<open>On the example: the exhausted log is pending again with no attempts and no retry
  time, its job is queued without delay, and a delivery that fails then is attempt 1 with
  the retry one minute later.\<close>

theorem manual_retry_restarts_schedule_witness:
  "fst (post_webhook_retry ''m1'' ''uuid-1'' demo_exhausted) =
     ApiResponse 200 (JObj [(''id'', JStr ''uuid-1''), (''status'', JStr ''pending''),
                            (''message'', JStr ''Webhook retry scheduled'')]) \<and>
   map wl_attempts (webhook_logs (snd (post_webhook_retry ''m1'' ''uuid-1'' demo_exhausted))) = [0] \<and>
   map wl_status (webhook_logs (snd (post_webhook_retry ''m1'' ''uuid-1'' demo_exhausted))) =
     [''pending''] \<and>
   map wl_next_retry_at (webhook_logs (snd (post_webhook_retry ''m1'' ''uuid-1'' demo_exhausted))) =
     [None] \<and>
   webhookQueue (snd (post_webhook_retry ''m1'' ''uuid-1'' demo_exhausted)) = [(demo_job, 0)] \<and>
   fst (deliverWebhook (demo_env unreachable) demo_job
          (snd (post_webhook_retry ''m1'' ''uuid-1'' demo_exhausted))) =
     Inr (Delivered ''uuid-1'' False 1) \<and>
   map wl_next_retry_at (webhook_logs (snd (deliverWebhook (demo_env unreachable) demo_job
          (snd (post_webhook_retry ''m1'' ''uuid-1'' demo_exhausted))))) = [Some 1060000]"
proof -
  let ?lg = "(new_webhook_log ''uuid-1'' ''m1'' ''payment.success'' (JObj []))
           \<lparr>wl_status := ''failed'', wl_attempts := 5, wl_last_attempt_at := Some 900000,
            wl_next_retry_at := Some 8100000, wl_response_code := Some 500\<rparr>"
  have l: "find (\<lambda>l. wl_id l = ''uuid-1'' \<and> wl_merchant_id l = ''m1'')
             (webhook_logs demo_exhausted) = Some ?lg"
    by (simp add: demo_exhausted_def demo_defs)
  have run: "post_webhook_retry ''m1'' ''uuid-1'' demo_exhausted =
     (fst (post_webhook_retry ''m1'' ''uuid-1'' demo_exhausted),
      snd (post_webhook_retry ''m1'' ''uuid-1'' demo_exhausted))"
    by simp
  have job: "demo_job = \<lparr>webhookLogId = ''uuid-1'', merchantId = ''m1'',
       event = wl_event ?lg, payload = wl_payload ?lg\<rparr>"
    by (simp add: demo_defs)
  have q: "webhookQueue (snd (post_webhook_retry ''m1'' ''uuid-1'' demo_exhausted)) =
             webhookQueue demo_exhausted @ [(demo_job, 0)]"
    using manual_retry_restarts_schedule [OF l run job] by blast
  show ?thesis
    using q
    by (simp add: post_webhook_retry_def demo_exhausted_def demo_defs deliver_defs)
qed

section \<open>Properties of refunds\<close>






lemma storeIdempotencyKey_tables:
  "payments (storeIdempotencyKey e k mid r s) = payments s \<and>
   refunds (storeIdempotencyKey e k mid r s) = refunds s \<and>
   orders (storeIdempotencyKey e k mid r s) = orders s \<and>
   paymentQueue (storeIdempotencyKey e k mid r s) = paymentQueue s"
  by (simp add: storeIdempotencyKey_def Let_def)



lemma total_refunded_append:
  "total_refunded pid (s\<lparr>refunds := refunds s @ [r]\<rparr>) =
     total_refunded pid s + (if counted pid r then r_amount r else 0)"
  by (simp add: total_refunded_def)













lemmas route_defs = post_payments_def create_payment_def checkIdempotencyKey_def
  storeIdempotencyKey_def ik_match_def new_payment_def payment_response_def or_null_def
  post_refunds_def new_refund_def refund_response_def error_body_def
  demo_initial_def demo_payment_request_def demo_refund_request_def

lemma post_refunds_rejects:
  assumes p: "find (\<lambda>p. p_id p = rr_payment_id rq \<and> p_merchant_id p = rr_merchant rq)
                (payments s) = Some p"
    and ex: "rr_amount rq > p_amount p - total_refunded (rr_payment_id rq) s"
  shows "snd (post_refunds e rq s) = s \<and>
         (\<exists>d. fst (post_refunds e rq s) = ApiResponse 400 (error_body ''BAD_REQUEST_ERROR'' d)) \<and>
         (p_status p = ''success'' \<and> 0 < rr_amount rq \<longrightarrow>
            fst (post_refunds e rq s) =
              ApiResponse 400 (error_body ''BAD_REQUEST_ERROR''
                ''Refund amount exceeds available amount''))"
  using assms by (auto simp: post_refunds_def Let_def)

lemma demo_refunded_tables:
  "payments demo_refunded =
     [(demo_payment ''pay_AAAAAAAAAAAAAAAA'' ''success'')
        \<lparr>p_created_at := 1000005, p_updated_at := 1000005\<rparr>]"
  "refunds demo_refunded =
     [\<lparr>r_id = ''rfnd_AAAAAAAAAAAAAAAA'', r_payment_id = ''pay_AAAAAAAAAAAAAAAA'',
       r_merchant_id = ''m1'', r_amount = 20000, r_reason = Some ''damaged'',
       r_status = ''pending'', r_created_at = 1000005, r_processed_at = None\<rparr>]"
  "refundQueue demo_refunded = [\<lparr>refundId = ''rfnd_AAAAAAAAAAAAAAAA''\<rparr>]"
  by (simp_all add: demo_refunded_def route_defs service_defs demo_defs shop_defs Let_def)



text \<open>
  Claim C7. A refund request whose amount exceeds the payment's amount minus the sum of its
  pending and processed refunds is rejected at once with status 400 and code
  \<^verbatim>\<open>BAD_REQUEST_ERROR\<close>, and the store is left exactly as it was: no refund row is
  inserted and no refund job is enqueued. When the payment is refundable and the amount
  positive, the description is ``Refund amount exceeds available amount''.
\<close>

theorem refund_over_available_rejected:
  assumes p: "find (\<lambda>p. p_id p = rr_payment_id rq \<and> p_merchant_id p = rr_merchant rq)
                (payments s) = Some p"
    and ex: "rr_amount rq > p_amount p - total_refunded (rr_payment_id rq) s"
    and run: "post_refunds e rq s = (resp, s')"
  shows "s' = s \<and> refunds s' = refunds s \<and> refundQueue s' = refundQueue s \<and>
         (\<exists>d. resp = ApiResponse 400 (error_body ''BAD_REQUEST_ERROR'' d)) \<and>
         (p_status p = ''success'' \<and> 0 < rr_amount rq \<longrightarrow>
            resp = ApiResponse 400 (error_body ''BAD_REQUEST_ERROR''
                ''Refund amount exceeds available amount''))"
  using post_refunds_rejects [OF p ex, of e] run by simp


text \<open>On the example: with 20000 of 50000 refunded, a request for 40000 is rejected.\<close>

theorem refund_over_available_rejected_witness:
  "total_refunded ''pay_AAAAAAAAAAAAAAAA'' demo_refunded = 20000 \<and>
   map p_amount (payments demo_refunded) = [50000] \<and>
   post_refunds (demo_env unreachable) (demo_refund_request 40000) demo_refunded =
     (ApiResponse 400 (error_body ''BAD_REQUEST_ERROR''
        ''Refund amount exceeds available amount''), demo_refunded)"
proof -
  let ?p = "(demo_payment ''pay_AAAAAAAAAAAAAAAA'' ''success'')
        \<lparr>p_created_at := 1000005, p_updated_at := 1000005\<rparr>"
  let ?rq = "demo_refund_request 40000"
  have t: "total_refunded ''pay_AAAAAAAAAAAAAAAA'' demo_refunded = 20000"
    by (simp add: total_refunded_def counted_def demo_refunded_tables)
  have p: "find (\<lambda>p. p_id p = rr_payment_id ?rq \<and> p_merchant_id p = rr_merchant ?rq)
             (payments demo_refunded) = Some ?p"
    by (simp add: demo_refunded_tables demo_refund_request_def demo_payment_def)
  have ex: "rr_amount ?rq > p_amount ?p - total_refunded (rr_payment_id ?rq) demo_refunded"
    using t by (simp add: demo_refund_request_def demo_payment_def)
  have run: "post_refunds (demo_env unreachable) ?rq demo_refunded =
      (fst (post_refunds (demo_env unreachable) ?rq demo_refunded),
       snd (post_refunds (demo_env unreachable) ?rq demo_refunded))"
    by simp
  have st: "p_status ?p = ''success'' \<and> 0 < rr_amount ?rq"
    by (simp add: demo_refund_request_def demo_payment_def)
  from refund_over_available_rejected [OF p ex run] st
  have "snd (post_refunds (demo_env unreachable) ?rq demo_refunded) = demo_refunded"
    and "fst (post_refunds (demo_env unreachable) ?rq demo_refunded) =
      ApiResponse 400 (error_body ''BAD_REQUEST_ERROR''
        ''Refund amount exceeds available amount'')"
    by blast+
  then have "post_refunds (demo_env unreachable) ?rq demo_refunded =
     (ApiResponse 400 (error_body ''BAD_REQUEST_ERROR''
        ''Refund amount exceeds available amount''), demo_refunded)"
    by (simp add: prod_eq_iff)
  with t show ?thesis
    by (simp add: demo_refunded_tables demo_payment_def)
qed




section \<open>Properties of the idempotency cache\<close>









lemma create_payment_valid:
  assumes "find (\<lambda>ord. o_id ord = pr_order_id rq \<and> o_merchant_id ord = pr_merchant rq)
             (orders s) = Some ord"
    and "valid_method rq"
    and "''pay_'' @ random_string e \<notin> set (map p_id (payments s))"
  shows "create_payment e rq s =
    (ApiResponse 201 (payment_response (new_payment e (''pay_'' @ random_string e) rq ord)),
     store_key e rq (payment_response (new_payment e (''pay_'' @ random_string e) rq ord))
       (s\<lparr>payments := payments s @ [new_payment e (''pay_'' @ random_string e) rq ord],
          paymentQueue := paymentQueue s @ [\<lparr>paymentId = ''pay_'' @ random_string e\<rparr>]\<rparr>))"
  using assms
  by (auto simp: create_payment_def valid_method_def Let_def store_key_def new_payment_def
        split: option.splits)


lemma find_map_upd_pred:
  assumes "\<And>x. P x \<Longrightarrow> P (f x)"
  shows "find P (map (\<lambda>x. if P x then f x else x) xs) = map_option f (find P xs)"
  using assms by (induction xs) auto

lemma find_append_new: "\<not> list_ex P xs \<Longrightarrow> P y \<Longrightarrow> find P (xs @ [y]) = Some y"
  by (induction xs) auto

lemma list_ex_find: "list_ex P xs \<Longrightarrow> \<exists>x. find P xs = Some x \<and> P x"
  by (induction xs) auto

lemma find_after_store:
  "\<exists>rec'. find (ik_match k mid) (idempotency_keys (storeIdempotencyKey e k mid r s)) = Some rec' \<and>
      ik_response rec' = r \<and> ik_expires_at rec' = date_now e + 24 * 60 * 60 * 1000"
proof -
  define t where "t = date_now e + 24 * 60 * 60 * 1000"
  define f :: "idempotency_key \<Rightarrow> idempotency_key"
    where "f = (\<lambda>x. x\<lparr>ik_response := r, ik_expires_at := t\<rparr>)"
  define new where "new = \<lparr>ik_key = k, ik_merchant_id = mid, ik_response = r,
                ik_expires_at = t\<rparr>"
  have st: "idempotency_keys (storeIdempotencyKey e k mid r s) =
      (if list_ex (ik_match k mid) (idempotency_keys s)
       then map (\<lambda>x. if ik_match k mid x then f x else x) (idempotency_keys s)
       else idempotency_keys s @ [new])"
    by (simp add: storeIdempotencyKey_def Let_def f_def new_def t_def)
  have keep: "ik_match k mid y \<Longrightarrow> ik_match k mid (f y)" for y
    by (simp add: ik_match_def f_def)
  have fr: "ik_response (f y) = r \<and> ik_expires_at (f y) = t" for y
    by (simp add: f_def)
  have nw: "ik_match k mid new \<and> ik_response new = r \<and> ik_expires_at new = t"
    by (simp add: new_def ik_match_def)
  show ?thesis
  proof (cases "list_ex (ik_match k mid) (idempotency_keys s)")
    case True
    obtain x where x: "find (ik_match k mid) (idempotency_keys s) = Some x"
      using list_ex_find [OF True] by blast
    have "find (ik_match k mid) (idempotency_keys (storeIdempotencyKey e k mid r s)) =
            Some (f x)"
      unfolding st using True find_map_upd_pred [of "ik_match k mid" f "idempotency_keys s"]
        keep x by simp
    then show ?thesis using fr [of x] unfolding t_def by blast
  next
    case False
    have "find (ik_match k mid) (idempotency_keys (storeIdempotencyKey e k mid r s)) = Some new"
      unfolding st using False find_append_new [OF False, of new] nw by simp
    then show ?thesis using nw unfolding t_def by blast
  qed
qed




lemma demo_created_tables:
  "idempotency_keys demo_created =
     [\<lparr>ik_key = ''key-1'', ik_merchant_id = ''m1'', ik_response = demo_response,
       ik_expires_at = 87400000\<rparr>]"
  "map p_id (payments demo_created) = [''pay_AAAAAAAAAAAAAAAA'']"
  "paymentQueue demo_created = [\<lparr>paymentId = ''pay_AAAAAAAAAAAAAAAA''\<rparr>]"
  "orders demo_created = [demo_order]"
  by (simp_all add: demo_created_def demo_response_def route_defs demo_defs shop_defs Let_def
        opt_field_def falsy_def)





text \<open>
  Claim C9. When the stored record's \<^verbatim>\<open>expires_at\<close> is at or before the current time,
  the lookup deletes the record and returns nothing, so the replay is handled as a cache
  miss: a valid request creates a new payment with its job. Whenever a key is stored or
  stored again, its expiry is 24 hours after the time of storing.
\<close>

theorem idempotency_expiry:
  assumes key: "pr_idempotency_key rq = Some k" "k \<noteq> []"
    and hit: "find (ik_match k (pr_merchant rq)) (idempotency_keys s) = Some rec"
    and expired: "ik_expires_at rec \<le> date_now e"
    and s1: "s1 = s\<lparr>idempotency_keys :=
                     filter (\<lambda>r. \<not> ik_match k (pr_merchant rq) r) (idempotency_keys s)\<rparr>"
  shows "checkIdempotencyKey e k (pr_merchant rq) s = (None, s1) \<and>
    find (ik_match k (pr_merchant rq)) (idempotency_keys s1) = None \<and>
    post_payments e rq s = create_payment e rq s1 \<and>
    (\<forall>ord. find (\<lambda>ord. o_id ord = pr_order_id rq \<and> o_merchant_id ord = pr_merchant rq)
             (orders s) = Some ord \<and> valid_method rq \<and>
           ''pay_'' @ random_string e \<notin> set (map p_id (payments s)) \<longrightarrow>
       (\<exists>p s' rec'. post_payments e rq s = (ApiResponse 201 (payment_response p), s') \<and>
          p = new_payment e (''pay_'' @ random_string e) rq ord \<and>
          payments s' = payments s @ [p] \<and>
          paymentQueue s' = paymentQueue s @ [\<lparr>paymentId = p_id p\<rparr>] \<and>
          find (ik_match k (pr_merchant rq)) (idempotency_keys s') = Some rec' \<and>
          ik_response rec' = payment_response p \<and>
          ik_expires_at rec' = date_now e + 24 * 60 * 60 * 1000)) \<and>
    (\<forall>r s0. \<exists>rec'.
        find (ik_match k (pr_merchant rq))
          (idempotency_keys (storeIdempotencyKey e k (pr_merchant rq) r s0)) = Some rec' \<and>
        ik_response rec' = r \<and> ik_expires_at rec' = date_now e + 24 * 60 * 60 * 1000)"
proof (intro conjI)
  show chk: "checkIdempotencyKey e k (pr_merchant rq) s = (None, s1)"
    using hit expired s1 by (simp add: checkIdempotencyKey_def)
  show "find (ik_match k (pr_merchant rq)) (idempotency_keys s1) = None"
    unfolding s1 by (simp add: find_None_iff)
  show pp: "post_payments e rq s = create_payment e rq s1"
    using key chk by (simp add: post_payments_def)
  show "\<forall>ord. find (\<lambda>ord. o_id ord = pr_order_id rq \<and> o_merchant_id ord = pr_merchant rq)
             (orders s) = Some ord \<and> valid_method rq \<and>
           ''pay_'' @ random_string e \<notin> set (map p_id (payments s)) \<longrightarrow>
       (\<exists>p s' rec'. post_payments e rq s = (ApiResponse 201 (payment_response p), s') \<and>
          p = new_payment e (''pay_'' @ random_string e) rq ord \<and>
          payments s' = payments s @ [p] \<and>
          paymentQueue s' = paymentQueue s @ [\<lparr>paymentId = p_id p\<rparr>] \<and>
          find (ik_match k (pr_merchant rq)) (idempotency_keys s') = Some rec' \<and>
          ik_response rec' = payment_response p \<and>
          ik_expires_at rec' = date_now e + 24 * 60 * 60 * 1000)"
  proof (intro allI impI, elim conjE)
    fix ord
    assume ord: "find (\<lambda>ord. o_id ord = pr_order_id rq \<and> o_merchant_id ord = pr_merchant rq)
             (orders s) = Some ord"
      and v: "valid_method rq"
      and fr: "''pay_'' @ random_string e \<notin> set (map p_id (payments s))"
    define p where "p = new_payment e (''pay_'' @ random_string e) rq ord"
    define s2 where "s2 = s1\<lparr>payments := payments s1 @ [p],
          paymentQueue := paymentQueue s1 @ [\<lparr>paymentId = ''pay_'' @ random_string e\<rparr>]\<rparr>"
    define s' where "s' = storeIdempotencyKey e k (pr_merchant rq) (payment_response p) s2"
    have ord1: "find (\<lambda>ord. o_id ord = pr_order_id rq \<and> o_merchant_id ord = pr_merchant rq)
             (orders s1) = Some ord"
      and fr1: "''pay_'' @ random_string e \<notin> set (map p_id (payments s1))"
      using ord fr unfolding s1 by simp_all
    have run: "post_payments e rq s = (ApiResponse 201 (payment_response p), s')"
      unfolding pp create_payment_valid [OF ord1 v fr1] s'_def s2_def p_def
      using key by (simp add: store_key_def)
    have ps: "payments s' = payments s @ [p]"
      and q: "paymentQueue s' = paymentQueue s @ [\<lparr>paymentId = p_id p\<rparr>]"
      unfolding s'_def using storeIdempotencyKey_tables [of e k "pr_merchant rq" _ s2]
      by (simp_all add: s2_def s1 p_def new_payment_def)
    obtain rec' where "find (ik_match k (pr_merchant rq)) (idempotency_keys s') = Some rec'"
      "ik_response rec' = payment_response p"
      "ik_expires_at rec' = date_now e + 24 * 60 * 60 * 1000"
      unfolding s'_def using find_after_store [of k "pr_merchant rq" e "payment_response p" s2]
      by blast
    with run ps q show "\<exists>p s' rec'. post_payments e rq s = (ApiResponse 201 (payment_response p), s') \<and>
          p = new_payment e (''pay_'' @ random_string e) rq ord \<and>
          payments s' = payments s @ [p] \<and>
          paymentQueue s' = paymentQueue s @ [\<lparr>paymentId = p_id p\<rparr>] \<and>
          find (ik_match k (pr_merchant rq)) (idempotency_keys s') = Some rec' \<and>
          ik_response rec' = payment_response p \<and>
          ik_expires_at rec' = date_now e + 24 * 60 * 60 * 1000"
      unfolding p_def by blast
  qed
  show "\<forall>r s0. \<exists>rec'.
        find (ik_match k (pr_merchant rq))
          (idempotency_keys (storeIdempotencyKey e k (pr_merchant rq) r s0)) = Some rec' \<and>
        ik_response rec' = r \<and> ik_expires_at rec' = date_now e + 24 * 60 * 60 * 1000"
    using find_after_store by blast
qed

text \<open>On the example: exactly 24 hours after the first request the key has expired; the
  lookup removes it, the replay creates a second payment and job, and the key is stored
  again with an expiry another 24 hours later.\<close>

theorem idempotency_expiry_witness:
  "checkIdempotencyKey (demo_later 86400000) ''key-1'' ''m1'' demo_created =
     (None, demo_created\<lparr>idempotency_keys := []\<rparr>) \<and>
   map p_id (payments (snd (post_payments (demo_later 86400000) demo_payment_request
      demo_created))) = [''pay_AAAAAAAAAAAAAAAA'', ''pay_BBBBBBBBBBBBBBBB''] \<and>
   paymentQueue (snd (post_payments (demo_later 86400000) demo_payment_request demo_created)) =
     [\<lparr>paymentId = ''pay_AAAAAAAAAAAAAAAA''\<rparr>, \<lparr>paymentId = ''pay_BBBBBBBBBBBBBBBB''\<rparr>] \<and>
   map ik_expires_at (idempotency_keys (snd (post_payments (demo_later 86400000)
      demo_payment_request demo_created))) = [173800000]"
proof -
  let ?e = "demo_later 86400000"
  let ?rec = "\<lparr>ik_key = ''key-1'', ik_merchant_id = ''m1'', ik_response = demo_response,
       ik_expires_at = 87400000\<rparr>"
  have key: "pr_idempotency_key demo_payment_request = Some ''key-1''" "''key-1'' \<noteq> []"
    by (simp_all add: demo_payment_request_def)
  have hit: "find (ik_match ''key-1'' (pr_merchant demo_payment_request))
               (idempotency_keys demo_created) = Some ?rec"
    by (simp add: demo_created_tables ik_match_def demo_payment_request_def)
  have expired: "ik_expires_at ?rec \<le> date_now ?e"
    by (simp add: demo_later_def demo_env_def)
  have s1: "demo_created\<lparr>idempotency_keys := []\<rparr> =
      demo_created\<lparr>idempotency_keys :=
         filter (\<lambda>r. \<not> ik_match ''key-1'' (pr_merchant demo_payment_request) r)
           (idempotency_keys demo_created)\<rparr>"
    by (simp add: demo_created_tables ik_match_def demo_payment_request_def)
  note inst = idempotency_expiry [OF key hit expired s1]
  have chk: "checkIdempotencyKey ?e ''key-1'' ''m1'' demo_created =
     (None, demo_created\<lparr>idempotency_keys := []\<rparr>)"
    using inst by (simp add: demo_payment_request_def)
  have pp: "post_payments ?e demo_payment_request demo_created =
      create_payment ?e demo_payment_request (demo_created\<lparr>idempotency_keys := []\<rparr>)"
    using inst by blast
  have ev: "map p_id (payments (snd (create_payment ?e demo_payment_request
      (demo_created\<lparr>idempotency_keys := []\<rparr>)))) =
        [''pay_AAAAAAAAAAAAAAAA'', ''pay_BBBBBBBBBBBBBBBB''] \<and>
   paymentQueue (snd (create_payment ?e demo_payment_request
      (demo_created\<lparr>idempotency_keys := []\<rparr>))) =
     [\<lparr>paymentId = ''pay_AAAAAAAAAAAAAAAA''\<rparr>, \<lparr>paymentId = ''pay_BBBBBBBBBBBBBBBB''\<rparr>] \<and>
   map ik_expires_at (idempotency_keys (snd (create_payment ?e demo_payment_request
      (demo_created\<lparr>idempotency_keys := []\<rparr>)))) = [173800000]"
    by (simp add: create_payment_def Let_def demo_created_tables demo_payment_request_def
          demo_later_def demo_env_def demo_order_def falsy_def storeIdempotencyKey_def
          new_payment_def)
  show ?thesis
    using chk ev unfolding pp by simp
qed

section \<open>Properties of the payment lifecycle\<close>

























section \<open>Properties of the webhook signature\<close>




lemma webhook_request_fields:
  "webhook_request e url S P =
     \<lparr>req_url = url, req_body = stringify e P,
      req_signature = hmac_sha256_hex e S (stringify e P)\<rparr>"
  by (simp add: webhook_request_def Let_def)

lemma receiver_endpoint_env [simp]:
  "webhook_request (e\<lparr>endpoint := ep\<rparr>) url S P = webhook_request e url S P"
  "stringify (e\<lparr>endpoint := ep\<rparr>) = stringify e"
  by (simp_all add: webhook_request_fields)






end
